theory Spec2Isabelle
  imports Complex_Main "HOL-Library.Log_Nat"
begin

section \<open>Metrics objects\<close>

text \<open>
  A \<open>metrics\<close> object, as the local extractor builds it and as the report page finds it
  on a stored journal entry.  Every member may be missing (\<open>None\<close>, which also stands for
  \<open>null\<close> and for a missing \<open>metrics\<close> object).  A number member is given by the decimal
  that is written for it, a rational; the code that computes with the member has the
  binary64 number nearest to that decimal.  The member \<open>timestamp\<close> is called
  \<open>metrics_timestamp\<close>.
\<close>

record metrics =
  sleep :: "rat option"
  exercise :: "rat option"
  mood :: "string option"
  energy :: "string option"
  symptoms :: "string list option"
  metrics_timestamp :: "int option"
  sleepQuality :: "string option"

definition empty_metrics :: metrics where
  "empty_metrics = \<lparr>sleep = None, exercise = None, mood = None, energy = None,
     symptoms = None, metrics_timestamp = None, sleepQuality = None\<rparr>"

section \<open>JavaScript numbers\<close>

text \<open>
  The journal analysis engine computes with JavaScript numbers, the binary64 numbers of
  IEEE 754.  A finite number is modelled by its exact value, a rational (\<open>Fin\<close>); the three
  special values that the code can produce are plus infinity, minus infinity and
  not-a-number.  The operations \<open>js_add\<close>, \<open>js_sub\<close>, \<open>js_mul\<close> and \<open>js_div\<close> give the exact
  result of an operation; \<open>fl\<close> rounds an exact value to the nearest binary64 number, and
  \<open>dbl_add\<close>, \<open>dbl_sub\<close>, \<open>dbl_mul\<close> and \<open>dbl_div\<close> are the operators \<open>+\<close>, \<open>-\<close>, \<open>*\<close> and
  \<open>/\<close> of the language: the exact result, rounded.  A decimal literal \<open>q\<close> of the program
  and a decimal \<open>q\<close> of a JSON text denote the number \<open>fl q\<close>; in an argument \<open>Fin q\<close> of a
  rounded operation \<open>q\<close> is the value of a binary64 number.  The rate limiter is modelled with the
  exact operations on its integer clock readings; the trend classification, the batch
  averages and the health score are modelled with the rounded ones.

  The sign of zero is not kept: \<open>Fin 0\<close> stands for both zeros, and a division by zero
  takes the divisor for the positive zero.  A sum that starts from the literal \<open>0\<close> is
  never the negative zero, and a quotient of such a sum is the negative zero only when a
  negative sum underflows.
\<close>

datatype jsnum = Fin rat | PosInf | NegInf | NaN

fun js_neg :: "jsnum \<Rightarrow> jsnum" where
  "js_neg (Fin a) = Fin (- a)"
| "js_neg PosInf = NegInf"
| "js_neg NegInf = PosInf"
| "js_neg NaN = NaN"

fun js_add :: "jsnum \<Rightarrow> jsnum \<Rightarrow> jsnum" where
  "js_add NaN _ = NaN"
| "js_add _ NaN = NaN"
| "js_add PosInf NegInf = NaN"
| "js_add NegInf PosInf = NaN"
| "js_add PosInf _ = PosInf"
| "js_add _ PosInf = PosInf"
| "js_add NegInf _ = NegInf"
| "js_add _ NegInf = NegInf"
| "js_add (Fin a) (Fin b) = Fin (a + b)"

definition js_sub :: "jsnum \<Rightarrow> jsnum \<Rightarrow> jsnum" where
  "js_sub a b = js_add a (js_neg b)"

fun js_mul :: "jsnum \<Rightarrow> jsnum \<Rightarrow> jsnum" where
  "js_mul NaN _ = NaN"
| "js_mul _ NaN = NaN"
| "js_mul (Fin a) (Fin b) = Fin (a * b)"
| "js_mul (Fin a) PosInf = (if a = 0 then NaN else if 0 < a then PosInf else NegInf)"
| "js_mul (Fin a) NegInf = (if a = 0 then NaN else if 0 < a then NegInf else PosInf)"
| "js_mul PosInf (Fin b) = (if b = 0 then NaN else if 0 < b then PosInf else NegInf)"
| "js_mul NegInf (Fin b) = (if b = 0 then NaN else if 0 < b then NegInf else PosInf)"
| "js_mul PosInf PosInf = PosInf"
| "js_mul PosInf NegInf = NegInf"
| "js_mul NegInf PosInf = NegInf"
| "js_mul NegInf NegInf = PosInf"

fun js_div :: "jsnum \<Rightarrow> jsnum \<Rightarrow> jsnum" where
  "js_div NaN _ = NaN"
| "js_div _ NaN = NaN"
| "js_div (Fin a) (Fin b) =
     (if b = 0 then (if 0 < a then PosInf else if a < 0 then NegInf else NaN)
      else Fin (a / b))"
| "js_div (Fin a) PosInf = Fin 0"
| "js_div (Fin a) NegInf = Fin 0"
| "js_div PosInf (Fin b) = (if b < 0 then NegInf else PosInf)"
| "js_div NegInf (Fin b) = (if b < 0 then PosInf else NegInf)"
| "js_div PosInf _ = NaN"
| "js_div NegInf _ = NaN"

fun js_lt :: "jsnum \<Rightarrow> jsnum \<Rightarrow> bool" where
  "js_lt NaN _ = False"
| "js_lt _ NaN = False"
| "js_lt (Fin a) (Fin b) = (a < b)"
| "js_lt NegInf NegInf = False"
| "js_lt NegInf _ = True"
| "js_lt _ NegInf = False"
| "js_lt PosInf _ = False"
| "js_lt _ PosInf = True"


text \<open>
  Rounding to binary64, to nearest with ties to the even significand.  \<open>pow2 k\<close> is the
  power \<open>2^k\<close> for an integer \<open>k\<close>, and \<open>ilog2 q\<close> is the exponent \<open>e\<close> with
  \<open>2^e \<le> q < 2^(e+1)\<close> of a positive \<open>q\<close>.  A number of exponent \<open>e\<close> is rounded to a
  multiple of \<open>2^(e-52)\<close>; below the smallest normal exponent -1022 the spacing stays
  \<open>2^(-1074)\<close>, and a rounded value of \<open>2^1024\<close> or more overflows to an infinity.
\<close>

definition pow2 :: "int \<Rightarrow> rat" where
  "pow2 k = (if 0 \<le> k then of_int (2 ^ nat k) else 1 / of_int (2 ^ nat (- k)))"

definition ilog2 :: "rat \<Rightarrow> int" where
  "ilog2 q = (if 1 \<le> q then bitlen \<lfloor>q\<rfloor> - 1 else - bitlen (\<lceil>1 / q\<rceil> - 1))"

definition round_even :: "rat \<Rightarrow> int" where
  "round_even x =
     (let f = \<lfloor>x\<rfloor>; d = x - of_int f
      in if d < 1 / 2 then f else if 1 / 2 < d then f + 1 else if even f then f else f + 1)"

definition fl :: "rat \<Rightarrow> jsnum" where
  "fl q =
     (if q = 0 then Fin 0
      else
        (let e = max (ilog2 \<bar>q\<bar>) (- 1022);
             ulp = pow2 (e - 52);
             r = of_int (round_even (q / ulp)) * ulp
         in if pow2 1024 \<le> \<bar>r\<bar> then (if 0 < q then PosInf else NegInf) else Fin r))"

fun js_round :: "jsnum \<Rightarrow> jsnum" where
  "js_round (Fin q) = fl q"
| "js_round x = x"

definition dbl_add :: "jsnum \<Rightarrow> jsnum \<Rightarrow> jsnum" where
  "dbl_add a b = js_round (js_add a b)"

definition dbl_sub :: "jsnum \<Rightarrow> jsnum \<Rightarrow> jsnum" where
  "dbl_sub a b = js_round (js_sub a b)"

definition dbl_mul :: "jsnum \<Rightarrow> jsnum \<Rightarrow> jsnum" where
  "dbl_mul a b = js_round (js_mul a b)"

definition dbl_div :: "jsnum \<Rightarrow> jsnum \<Rightarrow> jsnum" where
  "dbl_div a b = js_round (js_div a b)"

section \<open>Batch aggregation: trend classification\<close>


text \<open>\<open>arr.reduce(f, init)\<close>: a left fold with the accumulator first.\<close>

definition reduce :: "('b \<Rightarrow> 'a \<Rightarrow> 'b) \<Rightarrow> 'b \<Rightarrow> 'a list \<Rightarrow> 'b" where
  "reduce f init arr = foldl f init arr"












section \<open>Rate limiter\<close>

definition RATE_LIMIT :: nat where
  "RATE_LIMIT = 10"

definition COOLDOWN :: int where
  "COOLDOWN = 60 * 1000"

text \<open>\<open>requestLog\<close>: a \<open>Map\<close> from the caller's address to its request times (epoch ms).\<close>

type_synonym requestLog = "string \<rightharpoonup> int list"

text \<open>\<open>requestLog.get(ip) || []\<close>\<close>

definition get_or_empty :: "requestLog \<Rightarrow> string \<Rightarrow> int list" where
  "get_or_empty requestLog ip = (case requestLog ip of None \<Rightarrow> [] | Some ts \<Rightarrow> ts)"

text \<open>\<open>checkRateLimit\<close> of the single-entry route; the clock reading is an argument.\<close>

definition checkRateLimit :: "int \<Rightarrow> string \<Rightarrow> requestLog \<Rightarrow> bool \<times> requestLog" where
  "checkRateLimit now ip requestLog =
     (let userRequests = get_or_empty requestLog ip;
          recentRequests = filter (\<lambda>timestamp. now - timestamp < COOLDOWN) userRequests
      in if length recentRequests \<ge> RATE_LIMIT then (False, requestLog)
         else (True, requestLog(ip \<mapsto> recentRequests @ [now])))"

text \<open>\<open>Math.min(...xs)\<close> and \<open>Math.ceil\<close> on JavaScript numbers.\<close>

definition js_min :: "jsnum \<Rightarrow> jsnum \<Rightarrow> jsnum" where
  "js_min a b = (if a = NaN \<or> b = NaN then NaN else if js_lt b a then b else a)"

definition math_min :: "jsnum list \<Rightarrow> jsnum" where
  "math_min xs = foldl js_min PosInf xs"

fun math_ceil :: "jsnum \<Rightarrow> jsnum" where
  "math_ceil (Fin q) = Fin (of_int \<lceil>q\<rceil>)"
| "math_ceil x = x"

definition js_int :: "int \<Rightarrow> jsnum" where
  "js_int i = Fin (of_int i)"

text \<open>
  The rate-limit check at the head of the batch route's \<open>POST\<close>: either the request is
  answered with status 429 and a \<open>retryAfter\<close> value, or it is recorded and processed.
\<close>

datatype admission = Admitted | Denied (retryAfter: jsnum)

definition POST_rate_limit :: "int \<Rightarrow> string \<Rightarrow> requestLog \<Rightarrow> admission \<times> requestLog" where
  "POST_rate_limit now clientIp requestLog =
     (let timestamps = get_or_empty requestLog clientIp;
          recentRequests = filter (\<lambda>time. now - time < COOLDOWN) timestamps
      in if length recentRequests \<ge> RATE_LIMIT then
           (let oldestRequest = math_min (map js_int recentRequests);
                retryAfter = math_ceil (js_div
                  (js_sub (js_int COOLDOWN) (js_sub (js_int now) oldestRequest)) (Fin 1000))
            in (Denied retryAfter, requestLog))
         else (Admitted, requestLog(clientIp \<mapsto> recentRequests @ [now])))"

text \<open>A caller sending one request at each of the given times, in order.\<close>

fun requests :: "string \<Rightarrow> int list \<Rightarrow> requestLog \<Rightarrow> admission list \<times> requestLog" where
  "requests clientIp [] requestLog = ([], requestLog)"
| "requests clientIp (now # later) requestLog =
     (case POST_rate_limit now clientIp requestLog of
        (a, requestLog') \<Rightarrow>
          (case requests clientIp later requestLog' of
             (as, requestLog'') \<Rightarrow> (a # as, requestLog'')))"

section \<open>Retry wrapper\<close>

text \<open>
  \<open>retryAnalysis\<close> awaits \<open>analyzeJournalEntry\<close> inside a \<open>for\<close> loop.  The callee is
  outside the wrapper: \<open>call i\<close> is what the invocation made in iteration \<open>i\<close> does,
  \<open>Inl\<close> a thrown error and \<open>Inr\<close> a returned result.  The wrapper's observable steps are
  recorded in order: each invocation, and each timer wait with its delay in milliseconds.
  A \<open>throw\<close> of the wrapper is \<open>Inl\<close>; \<open>lastError\<close> is \<open>None\<close> while it is still
  \<open>undefined\<close>.
\<close>

datatype event = Call nat | Wait nat

function retry_loop ::
  "(nat \<Rightarrow> 'e + 'a) \<Rightarrow> nat \<Rightarrow> nat \<Rightarrow> 'e option \<Rightarrow> event list
     \<Rightarrow> ('e option + 'a) \<times> event list" where
  "retry_loop call maxRetries i lastError trace =
     (if i < maxRetries then
        (case call i of
           Inr result \<Rightarrow> (Inr result, trace @ [Call i])
         | Inl error \<Rightarrow>
             retry_loop call maxRetries (i + 1) (Some error)
               (trace @ [Call i, Wait (2 ^ i * 1000)]))
      else (Inl lastError, trace))"
  by pat_completeness auto
termination
  by (relation "measure (\<lambda>(call, maxRetries, i, lastError, trace). maxRetries - i)") auto

definition retryAnalysis :: "(nat \<Rightarrow> 'e + 'a) \<Rightarrow> nat \<Rightarrow> ('e option + 'a) \<times> event list" where
  "retryAnalysis call maxRetries = retry_loop call maxRetries 0 None []"

text \<open>The default parameter \<open>maxRetries = 2\<close>.\<close>

definition retryAnalysis_default :: "(nat \<Rightarrow> 'e + 'a) \<Rightarrow> ('e option + 'a) \<times> event list" where
  "retryAnalysis_default call = retryAnalysis call 2"

text \<open>The steps of \<open>n\<close> failed attempts in a row, and the number of invocations in a trace.\<close>

definition failed_attempts :: "nat \<Rightarrow> event list" where
  "failed_attempts n = concat (map (\<lambda>i. [Call i, Wait (2 ^ i * 1000)]) [0..<n])"

definition calls :: "event list \<Rightarrow> nat" where
  "calls trace = length (filter (\<lambda>ev. case ev of Call _ \<Rightarrow> True | Wait _ \<Rightarrow> False) trace)"

section \<open>AI enrichment client and its cache\<close>

text \<open>
  What \<open>JSON.parse\<close> returns.  An object is the list of its members, each name once;
  \<open>JSON.parse\<close> itself, the configured API key and the outcome of \<open>model.invoke\<close> are
  outside the engine and are arguments of the model.
\<close>

datatype json =
    JNull
  | JBool bool
  | JNumber rat
  | JString string
  | JArray "json list"
  | JObject "(string \<times> json) list"

datatype error = Error string

datatype response = InvokeFailed string | Content string

text \<open>
  \<open>parsed.name\<close> on a parsed value that is not \<open>null\<close>: a member of an object, and
  \<open>undefined\<close> (\<open>None\<close>) when the object has no such member or the value is not an
  object.  The names read here, \<open>insights\<close> and \<open>suggestions\<close>, are not inherited
  properties of arrays, strings, numbers or booleans.
\<close>

fun property :: "json \<Rightarrow> string \<Rightarrow> json option" where
  "property (JObject members) name = map_of members name"
| "property _ name = None"

text \<open>\<open>!v\<close> is true for \<open>undefined\<close>, \<open>null\<close>, \<open>false\<close>, \<open>0\<close> and the empty string.\<close>

fun truthy :: "json option \<Rightarrow> bool" where
  "truthy None = False"
| "truthy (Some JNull) = False"
| "truthy (Some (JBool b)) = b"
| "truthy (Some (JNumber n)) = (n \<noteq> 0)"
| "truthy (Some (JString s)) = (s \<noteq> [])"
| "truthy (Some (JArray _)) = True"
| "truthy (Some (JObject _)) = True"

fun isArray :: "json option \<Rightarrow> bool" where
  "isArray (Some (JArray _)) = True"
| "isArray _ = False"

text \<open>
  The first \<open>getAIAnalysis\<close> (no cache).  The body of its \<open>try\<close> block is
  \<open>getAIAnalysis_try\<close>: reading a property of \<open>null\<close> throws a \<open>TypeError\<close>, a response
  without the two arrays throws \<open>Invalid AI response format\<close>; the \<open>catch\<close> clause
  replaces whatever was thrown.
\<close>

definition getAIAnalysis_try :: "(string \<Rightarrow> json option) \<Rightarrow> response \<Rightarrow> error + json" where
  "getAIAnalysis_try JSON_parse response =
     (case response of
        InvokeFailed msg \<Rightarrow> Inl (Error msg)
      | Content content \<Rightarrow>
          (case JSON_parse content of
             None \<Rightarrow> Inl (Error ''SyntaxError'')
           | Some JNull \<Rightarrow> Inl (Error ''TypeError'')
           | Some parsed \<Rightarrow>
               if \<not> truthy (property parsed ''insights'')
                  \<or> \<not> truthy (property parsed ''suggestions'')
                  \<or> \<not> isArray (property parsed ''insights'')
                  \<or> \<not> isArray (property parsed ''suggestions'')
               then Inl (Error ''Invalid AI response format'')
               else Inr parsed))"

definition getAIAnalysis_first ::
  "(string \<Rightarrow> json option) \<Rightarrow> bool \<Rightarrow> response \<Rightarrow> error + json" where
  "getAIAnalysis_first JSON_parse apiKey response =
     (if \<not> apiKey then Inl (Error ''OpenAI API key not configured'')
      else (case getAIAnalysis_try JSON_parse response of
              Inl error \<Rightarrow> Inl (Error ''AI analysis failed'')
            | Inr parsed \<Rightarrow> Inr parsed))"

text \<open>
  The second \<open>getAIAnalysis\<close>, in front of which sits \<open>analysisCache\<close>, a \<open>Map\<close> from
  the cache key to the stored analysis and the time of storing.  \<open>now\<close> is the clock
  reading of the lookup and \<open>stored\<close> the later reading taken when the result is cached.
\<close>

definition CACHE_TTL :: int where
  "CACHE_TTL = 30 * 60 * 1000"

record cachedResult =
  analysis :: json
  timestamp :: int

type_synonym analysisCache = "string \<rightharpoonup> cachedResult"

definition cacheKey :: "string \<Rightarrow> string \<Rightarrow> string" where
  "cacheKey entry metrics_json = entry @ ''_'' @ metrics_json"

definition getAIAnalysis_call ::
  "(string \<Rightarrow> json option) \<Rightarrow> bool \<Rightarrow> response \<Rightarrow> int \<Rightarrow> string \<Rightarrow> analysisCache
     \<Rightarrow> (error + json) \<times> analysisCache" where
  "getAIAnalysis_call JSON_parse apiKey response stored key analysisCache =
     (if \<not> apiKey then (Inl (Error ''OpenAI API key not configured''), analysisCache)
      else (case response of
              InvokeFailed msg \<Rightarrow> (Inl (Error ''AI analysis failed''), analysisCache)
            | Content content \<Rightarrow>
                (case JSON_parse content of
                   None \<Rightarrow> (Inl (Error ''AI analysis failed''), analysisCache)
                 | Some parsed \<Rightarrow>
                     (Inr parsed,
                      analysisCache(key \<mapsto> \<lparr>analysis = parsed, timestamp = stored\<rparr>)))))"

definition getAIAnalysis ::
  "(string \<Rightarrow> json option) \<Rightarrow> bool \<Rightarrow> response \<Rightarrow> int \<Rightarrow> int \<Rightarrow> string \<Rightarrow> analysisCache
     \<Rightarrow> (error + json) \<times> analysisCache" where
  "getAIAnalysis JSON_parse apiKey response now stored key analysisCache =
     (case analysisCache key of
        Some cached \<Rightarrow>
          if now - timestamp cached < CACHE_TTL then (Inr (analysis cached), analysisCache)
          else getAIAnalysis_call JSON_parse apiKey response stored key analysisCache
      | None \<Rightarrow> getAIAnalysis_call JSON_parse apiKey response stored key analysisCache)"

text \<open>The periodic cleanup registered with \<open>setInterval\<close>, run at clock reading \<open>now\<close>.\<close>

definition cleanup :: "int \<Rightarrow> analysisCache \<Rightarrow> analysisCache" where
  "cleanup now analysisCache =
     (\<lambda>key. case analysisCache key of
              None \<Rightarrow> None
            | Some v \<Rightarrow> if now - timestamp v > CACHE_TTL then None else Some v)"

text \<open>Cleanups at the given clock readings, one after the other.\<close>

definition cleanups :: "int list \<Rightarrow> analysisCache \<Rightarrow> analysisCache" where
  "cleanups readings analysisCache = fold cleanup readings analysisCache"

section \<open>Health score: the sleep sub-score\<close>

text \<open>
  An item of \<open>sleepData\<close>; the formatted \<open>date\<close> is not read by the scores.
\<close>

record sleep_datum =
  "value" :: jsnum
  quality :: string

text \<open>
  \<open>Math.round\<close> gives the nearest integer, a half going up; \<open>Math.abs\<close>; \<open>Math.max\<close> of two
  numbers (\<open>Math.min\<close> of two numbers is \<open>js_min\<close>).
\<close>

fun math_round :: "jsnum \<Rightarrow> jsnum" where
  "math_round (Fin q) = Fin (of_int \<lfloor>q + 1 / 2\<rfloor>)"
| "math_round x = x"

fun math_abs :: "jsnum \<Rightarrow> jsnum" where
  "math_abs (Fin q) = Fin \<bar>q\<bar>"
| "math_abs PosInf = PosInf"
| "math_abs NegInf = PosInf"
| "math_abs NaN = NaN"

definition js_max :: "jsnum \<Rightarrow> jsnum \<Rightarrow> jsnum" where
  "js_max a b = (if a = NaN \<or> b = NaN then NaN else if js_lt a b then b else a)"

text \<open>
  The day-to-day branch of \<open>calculateConsistencyScore\<close>: the \<open>reduce\<close> over the items
  with their index, which skips index 0 and compares every later item with the one
  before it.
\<close>

fun day_to_day :: "jsnum \<Rightarrow> sleep_datum list \<Rightarrow> jsnum" where
  "day_to_day acc (earlier # item # later) =
     day_to_day
       (dbl_add acc (dbl_mul (math_abs (dbl_sub (value item) (value earlier))) (Fin 10)))
       (item # later)"
| "day_to_day acc _ = acc"

definition calculateConsistencyScore :: "sleep_datum list \<Rightarrow> rat option \<Rightarrow> jsnum" where
  "calculateConsistencyScore data targetValue =
     (if length data < 2 then Fin 0
      else
        (let daysInRange = Fin (of_nat (length data));
             score =
               (case targetValue of
                  Some target \<Rightarrow>
                    (let deviations =
                           map (\<lambda>item. math_abs (dbl_sub (value item) (Fin target))) data;
                         avgDeviation =
                           dbl_div (reduce (\<lambda>acc dev. dbl_add acc dev) (Fin 0) deviations)
                             daysInRange
                     in dbl_sub (Fin 100) (dbl_mul avgDeviation (Fin 10)))
                | None \<Rightarrow> dbl_sub (Fin 100) (dbl_div (day_to_day (Fin 0) data) daysInRange))
         in js_max (Fin 0) (js_min (Fin 100) (math_round score))))"

text \<open>
  \<open>qualityMap[curr.quality] || 70\<close> with \<open>qualityMap = { good: 100, normal: 70, poor: 40 }\<close>.
  A label that names a property every object inherits from \<open>Object.prototype\<close> finds a
  function or an object instead of a number; the sum of the \<open>reduce\<close> then becomes a
  string and the rounded quotient is not-a-number.  \<open>None\<close> stands for such a lookup.
\<close>

definition inherited :: "string \<Rightarrow> bool" where
  "inherited q = (q \<in> set [''constructor'', ''hasOwnProperty'', ''isPrototypeOf'',
     ''propertyIsEnumerable'', ''toLocaleString'', ''toString'', ''valueOf'', ''__proto__'',
     ''__defineGetter__'', ''__defineSetter__'', ''__lookupGetter__'', ''__lookupSetter__''])"

definition qualityMap :: "string \<Rightarrow> rat option" where
  "qualityMap q =
     (if q = ''good'' then Some 100
      else if q = ''normal'' then Some 70
      else if q = ''poor'' then Some 40
      else if inherited q then None
      else Some 70)"

record sleepAnalysis =
  consistency :: jsnum
  qualityScore :: jsnum

text \<open>
  \<open>analyzeSleepPatterns\<close> with its list \<open>sleepData\<close>; of the object it returns, the two
  members that \<open>calculateHealthScore\<close> reads.
\<close>

definition sleepData :: "metrics list \<Rightarrow> sleep_datum list" where
  "sleepData entries = map (\<lambda>entry.
       \<lparr>value = (case sleep entry of None \<Rightarrow> Fin 0 | Some v \<Rightarrow> fl v),
        quality = (case sleepQuality entry of
                     None \<Rightarrow> ''normal''
                   | Some q \<Rightarrow> if q = [] then ''normal'' else q)\<rparr>) entries"

definition analyzeSleepPatterns :: "metrics list \<Rightarrow> sleepAnalysis" where
  "analyzeSleepPatterns entries =
     (if entries = [] then \<lparr>consistency = Fin 0, qualityScore = Fin 0\<rparr>
      else
        (let consistencyScore = calculateConsistencyScore (sleepData entries) (Some 8);
             looked_up = map (\<lambda>item. qualityMap (quality item)) (sleepData entries);
             qualityScore =
               (if None \<in> set looked_up then NaN
                else math_round
                  (dbl_div (reduce (\<lambda>acc v. dbl_add acc (Fin v)) (Fin 0) (map the looked_up))
                     (Fin (of_nat (length (sleepData entries))))))
         in \<lparr>consistency = consistencyScore, qualityScore = qualityScore\<rparr>))"

text \<open>\<open>x || 0\<close> for a number \<open>x\<close>: zero and not-a-number give 0.\<close>

fun or_zero :: "jsnum \<Rightarrow> jsnum" where
  "or_zero NaN = Fin 0"
| "or_zero x = x"

text \<open>
  The constant \<open>sleepScore\<close> computed inside \<open>calculateHealthScore\<close>; the literals \<open>0.4\<close>
  and \<open>0.6\<close> are the binary64 numbers nearest to 4/10 and 6/10.
\<close>

definition sleepScore :: "metrics list \<Rightarrow> jsnum" where
  "sleepScore entries =
     (let sleepAnalysis = analyzeSleepPatterns entries
      in dbl_add (dbl_mul (or_zero (consistency sleepAnalysis)) (fl (4 / 10)))
                 (dbl_mul (or_zero (qualityScore sleepAnalysis)) (fl (6 / 10))))"

text \<open>
  The specification's formulas in exact arithmetic, on the decimals written for the
  sleep hours: the mean absolute deviation from a target and the consistency score
  without rounding.
\<close>

definition mean_abs_deviation :: "rat list \<Rightarrow> rat \<Rightarrow> rat" where
  "mean_abs_deviation hours target =
     sum_list (map (\<lambda>h. \<bar>h - target\<bar>) hours) / of_nat (length hours)"

definition sleep_hours :: "metrics list \<Rightarrow> rat list" where
  "sleep_hours entries = map (\<lambda>e. case sleep e of None \<Rightarrow> 0 | Some v \<Rightarrow> v) entries"

definition consistency_spec :: "metrics list \<Rightarrow> rat" where
  "consistency_spec entries =
     max 0 (min 100 (100 - 10 * mean_abs_deviation (sleep_hours entries) 8))"

text \<open>
  The same formulas as the code computes them, on the numbers that the sleep hours
  are: the deviations are summed from the left starting at 0 and the sum is divided by
  the count, and likewise the values of the quality labels, every operation rounded to
  binary64.
\<close>

definition sleep_numbers :: "metrics list \<Rightarrow> jsnum list" where
  "sleep_numbers entries =
     map (\<lambda>e. case sleep e of None \<Rightarrow> Fin 0 | Some v \<Rightarrow> fl v) entries"

definition avgDeviation :: "jsnum list \<Rightarrow> rat \<Rightarrow> jsnum" where
  "avgDeviation hours target =
     dbl_div (foldl dbl_add (Fin 0) (map (\<lambda>h. math_abs (dbl_sub h (Fin target))) hours))
       (Fin (of_nat (length hours)))"

definition label_value :: "string option \<Rightarrow> rat" where
  "label_value q =
     (if q = Some ''good'' then 100 else if q = Some ''poor'' then 40 else 70)"

definition qualityMean :: "metrics list \<Rightarrow> jsnum" where
  "qualityMean entries =
     dbl_div (foldl dbl_add (Fin 0) (map (\<lambda>e. Fin (label_value (sleepQuality e))) entries))
       (Fin (of_nat (length entries)))"

definition no_inherited_label :: "metrics list \<Rightarrow> bool" where
  "no_inherited_label entries =
     (\<forall>e\<in>set entries. case sleepQuality e of None \<Rightarrow> True | Some q \<Rightarrow> \<not> inherited q)"

section \<open>Regular expressions of the local extractor\<close>

text \<open>
  A text is a sequence of code units below 256.  The patterns of the extractor use
  literal characters, alternatives, optional parts, the greedy repetitions \<open>\s*\<close> and
  \<open>\d+\<close> of a character class, the word boundary \<open>\b\<close> and at most one capturing group;
  all carry the flag \<open>i\<close> and none the flag \<open>g\<close>.
\<close>

datatype char_class = Space | Digit

datatype regex =
    Chars string
  | Star char_class
  | Plus char_class
  | Seq regex regex
  | Alt regex regex
  | Opt regex
  | Group regex
  | WordBoundary

definition is_space :: "char \<Rightarrow> bool" where
  "is_space c = (c \<in> set [CHR '' '', CHR 0x09, CHR 0x0A, CHR 0x0B, CHR 0x0C, CHR 0x0D, CHR 0xA0])"

definition is_digit :: "char \<Rightarrow> bool" where
  "is_digit c = (c \<in> set ''0123456789'')"

definition is_word :: "char \<Rightarrow> bool" where
  "is_word c = (c \<in> set ''abcdefghijklmnopqrstuvwxyzABCDEFGHIJKLMNOPQRSTUVWXYZ0123456789_'')"

fun in_class :: "char_class \<Rightarrow> char \<Rightarrow> bool" where
  "in_class Space c = is_space c"
| "in_class Digit c = is_digit c"

text \<open>Case folding of the flag \<open>i\<close>, and \<open>toLowerCase\<close>, on the letters A to Z.\<close>

definition lower :: "char \<Rightarrow> char" where
  "lower c =
     (case map_of (zip ''ABCDEFGHIJKLMNOPQRSTUVWXYZ'' ''abcdefghijklmnopqrstuvwxyz'') c of
        None \<Rightarrow> c
      | Some l \<Rightarrow> l)"

definition toLowerCase :: "string \<Rightarrow> string" where
  "toLowerCase s = map lower s"

text \<open>
  A position of the matcher: the character before it (for \<open>\b\<close>), the text still to be
  read, and what group 1 has captured.  \<open>run r p\<close> lists the positions at which a match
  of \<open>r\<close> begun at \<open>p\<close> can end, in the order in which the backtracking matcher tries
  them: the first alternative before the second, the longer repetition before the
  shorter, the optional part present before absent.
\<close>

type_synonym position = "char option \<times> string \<times> string option"

fun advance :: "nat \<Rightarrow> position \<Rightarrow> position" where
  "advance 0 p = p"
| "advance (Suc n) (before, [], cap) = (before, [], cap)"
| "advance (Suc n) (before, c # cs, cap) = advance n (Some c, cs, cap)"

fun literal :: "string \<Rightarrow> position \<Rightarrow> position list" where
  "literal [] p = [p]"
| "literal (x # xs) (before, [], cap) = []"
| "literal (x # xs) (before, c # cs, cap) =
     (if lower c = lower x then literal xs (Some c, cs, cap) else [])"

definition repetition :: "char_class \<Rightarrow> nat \<Rightarrow> position \<Rightarrow> position list" where
  "repetition k least p =
     (case p of (before, s, cap) \<Rightarrow>
        map (\<lambda>n. advance n p) (rev [least..<Suc (length (takeWhile (in_class k) s))]))"

definition at_boundary :: "position \<Rightarrow> bool" where
  "at_boundary p =
     (case p of (before, s, cap) \<Rightarrow>
        (case before of None \<Rightarrow> False | Some c \<Rightarrow> is_word c)
        \<noteq> (case s of [] \<Rightarrow> False | c # _ \<Rightarrow> is_word c))"

fun run :: "regex \<Rightarrow> position \<Rightarrow> position list" where
  "run (Chars xs) p = literal xs p"
| "run (Star k) p = repetition k 0 p"
| "run (Plus k) p = repetition k 1 p"
| "run (Seq a b) p = concat (map (run b) (run a p))"
| "run (Alt a b) p = run a p @ run b p"
| "run (Opt a) p = run a p @ [p]"
| "run (Group a) p =
     map (\<lambda>q. case q of (before, s, cap) \<Rightarrow>
            (before, s, Some (take (length (fst (snd p)) - length s) (fst (snd p)))))
         (run a p)"
| "run WordBoundary p = (if at_boundary p then [p] else [])"

text \<open>
  A match of the pattern starting at index \<open>k\<close> of the text, if there is one: the capture
  of group 1.  \<open>exec\<close> tries the indices from 0 up to the length of the text and returns
  the first match, as \<open>text.match(pattern)\<close> and \<open>pattern.test(text)\<close> do.
\<close>

definition match_at :: "regex \<Rightarrow> string \<Rightarrow> nat \<Rightarrow> string option option" where
  "match_at r s k =
     (case run r (if k = 0 then None else Some (s ! (k - 1)), drop k s, None) of
        [] \<Rightarrow> None
      | (before, rest, cap) # _ \<Rightarrow> Some cap)"

definition exec :: "regex \<Rightarrow> string \<Rightarrow> string option option" where
  "exec r s =
     (case find (\<lambda>k. match_at r s k \<noteq> None) [0..<Suc (length s)] of
        None \<Rightarrow> None
      | Some k \<Rightarrow> match_at r s k)"

definition test :: "regex \<Rightarrow> string \<Rightarrow> bool" where
  "test r s = (exec r s \<noteq> None)"

definition alternatives :: "string list \<Rightarrow> regex" where
  "alternatives ws = foldr (\<lambda>w r. Alt (Chars w) r) (butlast ws) (Chars (last ws))"

definition sequence :: "regex list \<Rightarrow> regex" where
  "sequence rs = foldr Seq (butlast rs) (last rs)"

definition keyword :: "regex \<Rightarrow> regex" where
  "keyword r = Seq WordBoundary (Seq r WordBoundary)"

text \<open>
  \<open>parseFloat\<close> and \<open>parseInt\<close> on what \<open>\d+(?:\.\d+)?\<close> and \<open>\d+\<close> capture, as exact
  decimal values.
\<close>

definition digit_value :: "char \<Rightarrow> nat" where
  "digit_value c = length (takeWhile (\<lambda>d. d \<noteq> c) ''0123456789'')"

definition parseInt :: "string \<Rightarrow> nat" where
  "parseInt digits = foldl (\<lambda>n c. 10 * n + digit_value c) 0 (takeWhile is_digit digits)"

definition parseFloat :: "string \<Rightarrow> rat" where
  "parseFloat s =
     (let whole = takeWhile is_digit s;
          after = drop (length whole) s;
          fraction = (case after of
                        [] \<Rightarrow> []
                      | c # cs \<Rightarrow> if c = CHR ''.'' then takeWhile is_digit cs else [])
      in of_nat (parseInt whole) + of_nat (parseInt fraction) / 10 ^ length fraction)"

section \<open>Local extractor\<close>

text \<open>
  The pattern tables of the two \<open>analyzeLocally\<close> functions of \<open>analyzeJournal.js\<close>.  The
  second table, with word boundaries, belongs to the \<open>analyzeLocally\<close> that the cached
  \<open>getAIAnalysis\<close> accompanies; the first table and the functions that use it carry the
  suffix \<open>first\<close>.  Objects keep their members in the order written, which is the order of
  the lists.
\<close>

definition patterns_sleep :: regex where
  "patterns_sleep = sequence
     [alternatives [''slept'', ''sleep''], Star Space, Opt (alternatives [''for'', ''about'']),
      Star Space, Group (Seq (Plus Digit) (Opt (Seq (Chars ''.'') (Plus Digit)))),
      Star Space, Chars ''hour'', Opt (Chars ''s'')]"

definition patterns_exercise :: regex where
  "patterns_exercise = sequence
     [alternatives [''exercised'', ''worked out'', ''ran'', ''jogged'', ''walked''], Star Space,
      Opt (Chars ''for''), Star Space, Group (Plus Digit), Star Space,
      Alt (sequence [Chars ''min'', Opt (Chars ''ute''), Opt (Chars ''s'')])
          (Seq (Chars ''hour'') (Opt (Chars ''s'')))]"

definition patterns_mood :: "(string \<times> regex) list" where
  "patterns_mood =
     [(''positive'', keyword (alternatives
         [''happy'', ''great'', ''good'', ''excellent'', ''wonderful'', ''amazing'', ''fantastic''])),
      (''negative'', keyword (alternatives
         [''sad'', ''bad'', ''terrible'', ''awful'', ''depressed'', ''unhappy'', ''stressed''])),
      (''neutral'', keyword (alternatives [''okay'', ''fine'', ''alright'', ''normal'']))]"

definition patterns_energy :: "(string \<times> regex) list" where
  "patterns_energy =
     [(''high'', keyword (alternatives
         [''energetic'', ''energized'', ''active'', ''full of energy''])),
      (''low'', keyword (alternatives [''tired'', ''exhausted'', ''fatigued'', ''low energy''])),
      (''medium'', keyword (alternatives [''moderate energy'', ''decent energy'']))]"

definition patterns_symptoms :: "(string \<times> regex) list" where
  "patterns_symptoms =
     [(''headache'', keyword (alternatives [''headache'', ''migraine''])),
      (''nausea'', keyword (Alt (alternatives [''nausea'', ''nauseated''])
         (sequence [Chars ''sick to '', alternatives [''my'', ''the''], Chars '' stomach'']))),
      (''pain'', keyword (alternatives [''pain'', ''ache'', ''sore''])),
      (''anxiety'', keyword (alternatives [''anxiety'', ''anxious'', ''worried'', ''stress''])),
      (''fatigue'', keyword (alternatives [''fatigue'', ''exhaustion'', ''tired'']))]"

text \<open>
  The loop \<open>for (const [type, pattern] of Object.entries(table)) { if (pattern.test(text))
  { value = type; break; } }\<close> over a table, started with \<open>value\<close>.
\<close>

fun first_match :: "(string \<times> regex) list \<Rightarrow> string \<Rightarrow> 'a \<Rightarrow> (string \<Rightarrow> 'a) \<Rightarrow> 'a" where
  "first_match [] s initial found = initial"
| "first_match ((type, pattern) # table) s initial found =
     (if test pattern s then found type else first_match table s initial found)"

text \<open>
  The second \<open>analyzeLocally\<close>; \<open>now\<close> is the reading of \<open>Date.now()\<close>.  Group 1 is
  not optional in the two patterns that have it, so a match always carries its capture.
\<close>

definition analyzeLocally :: "int \<Rightarrow> string \<Rightarrow> metrics" where
  "analyzeLocally now entry =
     (let sleepMatch = exec patterns_sleep entry;
          sleep_value = (case sleepMatch of
                           Some (Some group1) \<Rightarrow> Some (parseFloat group1)
                         | _ \<Rightarrow> None);
          exerciseMatch = exec patterns_exercise entry;
          exercise_value = (case exerciseMatch of
                              Some (Some group1) \<Rightarrow> Some (of_nat (parseInt group1))
                            | _ \<Rightarrow> None);
          lowerEntry = toLowerCase entry;
          mood_value = first_match patterns_mood lowerEntry ''neutral'' (\<lambda>type. type);
          energy_value = first_match patterns_energy lowerEntry None Some;
          symptoms_value = map fst (filter (\<lambda>(symptom, pattern). test pattern lowerEntry)
                                      patterns_symptoms)
      in \<lparr>sleep = sleep_value, exercise = exercise_value, mood = Some mood_value,
          energy = energy_value, symptoms = Some symptoms_value,
          metrics_timestamp = Some now, sleepQuality = None\<rparr>)"

text \<open>The first pattern table.\<close>

definition patterns_first_sleep :: regex where
  "patterns_first_sleep = sequence
     [alternatives [''slept'', ''sleep''], Star Space, Opt (Seq (Chars ''for'') (Star Space)),
      Group (Seq (Plus Digit) (Opt (Seq (Chars ''.'') (Plus Digit)))),
      Star Space, Chars ''hour'', Opt (Chars ''s'')]"

definition patterns_first_exercise :: regex where
  "patterns_first_exercise = sequence
     [Alt (Seq (Chars ''exercise'') (Opt (Chars ''d'')))
        (Alt (sequence [Chars ''worke'', Opt (Chars ''d''), Star Space, Chars ''out''])
           (alternatives [''ran'', ''jogged'', ''walked''])),
      Star Space, Opt (Seq (Chars ''for'') (Star Space)), Group (Plus Digit), Star Space,
      Alt (sequence [Chars ''min'', Opt (Chars ''ute''), Opt (Chars ''s'')])
          (Seq (Chars ''hour'') (Opt (Chars ''s'')))]"

definition feeling :: "string list \<Rightarrow> regex" where
  "feeling ws = sequence [alternatives [''feeling'', ''felt''], Star Space, alternatives ws]"

definition energy_or_feeling :: "string list \<Rightarrow> regex" where
  "energy_or_feeling ws =
     sequence [alternatives [''energy'', ''feeling''], Star Space, alternatives ws]"

definition patterns_first_mood :: "(string \<times> regex) list" where
  "patterns_first_mood =
     [(''good'', feeling [''great'', ''good'', ''happy'', ''excellent'', ''amazing'',
         ''fantastic'', ''positive'', ''energetic'']),
      (''bad'', feeling [''bad'', ''terrible'', ''awful'', ''depressed'', ''sad'', ''angry'',
         ''negative'', ''down'']),
      (''neutral'', feeling [''okay'', ''fine'', ''alright'', ''normal'', ''neutral''])]"

definition patterns_first_energy :: "(string \<times> regex) list" where
  "patterns_first_energy =
     [(''high'', energy_or_feeling
         [''high'', ''great'', ''excellent'', ''fantastic'', ''full'', ''lots'']),
      (''low'', energy_or_feeling [''low'', ''tired'', ''exhausted'', ''drained'', ''no'', ''little'']),
      (''medium'', energy_or_feeling [''okay'', ''fine'', ''alright'', ''normal'', ''moderate''])]"

definition patterns_first_symptoms :: "(string \<times> regex) list" where
  "patterns_first_symptoms =
     [(''headache'', Alt (alternatives [''headache'', ''migraine''])
         (Alt (sequence [Chars ''head'', Star Space, Chars ''pain''])
            (sequence [Chars ''head'', Star Space, Chars ''hurts'']))),
      (''fever'', Alt (alternatives [''fever'', ''temperature''])
         (Alt (sequence [Chars ''hot'', Star Space, Chars ''flash'']) (Chars ''chills''))),
      (''cough'', Alt (Seq (Chars ''cough'') (Opt (Chars ''ing'')))
         (Alt (sequence [Chars ''chest'', Star Space, Chars ''congestion''])
            (Seq (Chars ''wheez'') (alternatives [''e'', ''ing''])))),
      (''fatigue'', Alt (Chars ''fatigue'')
         (Alt (Seq (Chars ''tired'') (Opt (Chars ''ness'')))
            (Alt (alternatives [''exhausted'', ''drained''])
               (sequence [Chars ''no'', Star Space, Chars ''energy''])))),
      (''pain'', Alt (alternatives [''pain'', ''ache''])
         (Alt (Seq (Chars ''sore'') (Opt (Chars ''ness'')))
            (Seq (Chars ''hurt'') (Opt (alternatives [''s'', ''ing'']))))),
      (''nausea'', Alt (Chars ''nausea'')
         (Alt (sequence [Chars ''sick'', Star Space, Chars ''to'', Star Space, Chars ''stomach''])
            (Alt (Chars ''queasy'') (Seq (Chars ''vomit'') (Opt (Chars ''ing'')))))),
      (''dizziness'', Alt (alternatives [''dizzy'', ''vertigo''])
         (Alt (sequence [Chars ''light'', Star Space, Chars ''headed'']) (Chars ''spinning''))),
      (''anxiety'', Alt (alternatives [''anxious'', ''anxiety'', ''worried''])
         (Alt (Seq (Chars ''stress'') (Opt (Chars ''ed''))) (Chars ''nervous''))),
      (''insomnia'', Alt (Chars ''insomnia'')
         (Alt (sequence [Chars ''can'', Chars [CHR 0x27], Chars ''t'', Star Space, Chars ''sleep''])
            (Alt (sequence [Chars ''trouble'', Star Space, Chars ''sleeping''])
               (Chars ''restless'')))),
      (''digestive'', Alt (Chars ''stomach'')
         (Alt (Seq (Chars ''digest'') (alternatives [''ion'', ''ive'']))
            (alternatives [''bowel'', ''constipation'', ''diarrhea''])))]"

text \<open>
  The loop \<open>Object.entries(table).forEach(([key, pattern]) => { if (pattern.test(text))
  value = key; })\<close> of the first \<open>analyzeLocally\<close>: every member is tested and a later
  match overwrites an earlier one.
\<close>

fun last_match :: "(string \<times> regex) list \<Rightarrow> string \<Rightarrow> string \<Rightarrow> string" where
  "last_match [] s current = current"
| "last_match ((key, pattern) # table) s current =
     last_match table s (if test pattern s then key else current)"

definition analyzeLocally_first :: "string \<Rightarrow> metrics" where
  "analyzeLocally_first entry =
     (let sleepMatch = exec patterns_first_sleep entry;
          sleep_value = (case sleepMatch of
                           Some (Some group1) \<Rightarrow> parseFloat group1
                         | _ \<Rightarrow> 0);
          exerciseMatch = exec patterns_first_exercise entry;
          exercise_value = (case exerciseMatch of
                              Some (Some group1) \<Rightarrow> of_nat (parseInt group1)
                            | _ \<Rightarrow> 0);
          mood_value = last_match patterns_first_mood entry ''neutral'';
          energy_value = last_match patterns_first_energy entry ''medium'';
          symptoms_value = map fst (filter (\<lambda>(symptom, pattern). test pattern entry)
                                      patterns_first_symptoms)
      in \<lparr>sleep = Some sleep_value, exercise = Some exercise_value, mood = Some mood_value,
          energy = Some energy_value, symptoms = Some symptoms_value,
          metrics_timestamp = None, sleepQuality = None\<rparr>)"

section \<open>Batch route\<close>

text \<open>
  An element of the array \<open>entries\<close> of the request body is \<open>null\<close>, whose members cannot
  be read, or another value, which the route reads through its members \<open>id\<close> and
  \<open>content\<close>.  A missing member is \<open>None\<close> (a number, a string or a boolean has neither
  member), and \<open>content\<close> is \<open>None\<close> also when it is not a string.

  An element of \<open>results\<close> is either the failure object \<open>{ id, error, details }\<close> or
  \<open>{ id, ...result }\<close> for what \<open>retryAnalysis\<close> resolved to; the aggregation reads the
  members \<open>error\<close> and \<open>metrics\<close> only, so \<open>insights\<close>, \<open>suggestions\<close> and \<open>cached\<close> are
  left out.  The service's JSON is spread into what \<open>analyzeJournalEntry\<close> returns and
  may bring members \<open>id\<close> and \<open>error\<close> of its own.
\<close>

record batch_entry =
  entry_id :: "json option"
  content :: "string option"


record result =
  result_id :: "json option"
  error :: "json option"
  details :: "string option"
  result_metrics :: "metrics option"


























section \<open>Properties of binary64 rounding\<close>

lemma pow2_powi: "pow2 k = 2 powi k"
  by (simp add: pow2_def power_int_def power_inverse inverse_eq_divide power_one_over)

lemma pow2_pos: "0 < pow2 k"
  by (simp add: pow2_powi)



lemma round_even_ge: "of_int k \<le> x \<Longrightarrow> k \<le> round_even x"
proof -
  assume "of_int k \<le> x"
  then have "k \<le> \<lfloor>x\<rfloor>" by (simp add: le_floor_iff)
  then show ?thesis by (simp add: round_even_def Let_def)
qed


lemma fl_not_NaN: "fl q \<noteq> NaN"
  by (simp add: fl_def Let_def)

lemma fl_nonneg:
  assumes "0 \<le> q"
  shows "fl q = PosInf \<or> (\<exists>r. fl q = Fin r \<and> 0 \<le> r)"
proof (cases "q = 0")
  case True then show ?thesis by (simp add: fl_def)
next
  case False
  with assms have q: "0 < q" by simp
  let ?u = "pow2 (max (ilog2 \<bar>q\<bar>) (- 1022) - 52)"
  have "0 \<le> q / ?u" using q pow2_pos[of "max (ilog2 \<bar>q\<bar>) (- 1022) - 52"] by simp
  then have "(0::int) \<le> round_even (q / ?u)" using round_even_ge[of 0 "q / ?u"] by simp
  then have "0 \<le> of_int (round_even (q / ?u)) * ?u"
    using pow2_pos[of "max (ilog2 \<bar>q\<bar>) (- 1022) - 52"] by simp
  then show ?thesis using q by (simp add: fl_def Let_def)
qed












section \<open>Properties of the trend classification\<close>


















section \<open>Properties of the rate limiter\<close>

lemma js_min_int: "js_min (js_int a) (js_int b) = js_int (min a b)"
  by (simp add: js_min_def js_int_def min_def)

lemma foldl_js_min_int: "foldl js_min (js_int a) (map js_int xs) = js_int (Min (insert a (set xs)))"
proof (induction xs arbitrary: a)
  case Nil then show ?case by simp
next
  case (Cons x xs)
  have "Min (insert (min a x) (set xs)) = Min (insert a (insert x (set xs)))"
  proof (cases "set xs = {}")
    case True then show ?thesis by (simp add: min.commute)
  next
    case False then show ?thesis by (simp add: min.assoc)
  qed
  with Cons show ?case by (simp add: js_min_int)
qed

lemma math_min_int: "xs \<noteq> [] \<Longrightarrow> math_min (map js_int xs) = js_int (Min (set xs))"
proof (cases xs)
  case Nil then show "xs \<noteq> [] \<Longrightarrow> ?thesis" by simp
next
  case (Cons x ys)
  have "js_min PosInf (js_int x) = js_int x" by (simp add: js_min_def js_int_def)
  then show ?thesis using Cons foldl_js_min_int[of x ys] by (simp add: math_min_def)
qed

lemma retryAfter_value:
  assumes "xs \<noteq> []"
  shows "math_ceil (js_div (js_sub (js_int COOLDOWN) (js_sub (js_int now) (math_min (map js_int xs)))) (Fin 1000))
     = js_int \<lceil>(of_int (COOLDOWN - (now - Min (set xs))) :: rat) / 1000\<rceil>"
  by (simp add: math_min_int[OF assms] js_int_def js_sub_def algebra_simps)

lemma retryAfter_pos:
  assumes "xs \<noteq> []" "\<forall>t\<in>set xs. now - t < COOLDOWN"
  shows "0 < \<lceil>(of_int (COOLDOWN - (now - Min (set xs))) :: rat) / 1000\<rceil>"
proof -
  have "Min (set xs) \<in> set xs" using assms(1) by (simp add: Min_in)
  with assms(2) have "now - Min (set xs) < COOLDOWN" by blast
  then have "0 < (of_int (COOLDOWN - (now - Min (set xs))) :: rat) / 1000" by simp
  then show ?thesis by (simp add: ceiling_less_iff)
qed

lemma POST_rate_limit_admit:
  assumes "length (filter (\<lambda>t. now - t < COOLDOWN) (get_or_empty lg ip)) < RATE_LIMIT"
  shows "POST_rate_limit now ip lg
     = (Admitted, lg(ip \<mapsto> filter (\<lambda>t. now - t < COOLDOWN) (get_or_empty lg ip) @ [now]))"
  using assms by (simp add: POST_rate_limit_def Let_def)

lemma POST_rate_limit_deny:
  assumes "\<not> length (filter (\<lambda>t. now - t < COOLDOWN) (get_or_empty lg ip)) < RATE_LIMIT"
  shows "POST_rate_limit now ip lg
     = (Denied (js_int \<lceil>(of_int (COOLDOWN - (now -
          Min (set (filter (\<lambda>t. now - t < COOLDOWN) (get_or_empty lg ip))))) :: rat) / 1000\<rceil>), lg)"
    and "0 < \<lceil>(of_int (COOLDOWN - (now -
          Min (set (filter (\<lambda>t. now - t < COOLDOWN) (get_or_empty lg ip))))) :: rat) / 1000\<rceil>"
proof -
  let ?rec = "filter (\<lambda>t. now - t < COOLDOWN) (get_or_empty lg ip)"
  from assms have ne: "?rec \<noteq> []" by (auto simp: RATE_LIMIT_def)
  show "POST_rate_limit now ip lg
     = (Denied (js_int \<lceil>(of_int (COOLDOWN - (now - Min (set ?rec))) :: rat) / 1000\<rceil>), lg)"
    using assms retryAfter_value[OF ne, of now]
    by (simp add: POST_rate_limit_def Let_def del: set_filter)
  show "0 < \<lceil>(of_int (COOLDOWN - (now - Min (set ?rec))) :: rat) / 1000\<rceil>"
    by (rule retryAfter_pos[OF ne]) simp
qed

lemma checkRateLimit_eq:
  "checkRateLimit now ip lg =
     (if length (filter (\<lambda>t. now - t < COOLDOWN) (get_or_empty lg ip)) < RATE_LIMIT
      then (True, lg(ip \<mapsto> filter (\<lambda>t. now - t < COOLDOWN) (get_or_empty lg ip) @ [now]))
      else (False, lg))"
  by (simp add: checkRateLimit_def Let_def)

lemma requests_window:
  assumes "get_or_empty lg ip = rec"
    and "\<forall>t\<in>set ts. \<forall>r\<in>set rec \<union> set ts. t - r < COOLDOWN"
    and "length rec \<le> RATE_LIMIT"
  shows "map (\<lambda>a. a = Admitted) (fst (requests ip ts lg))
           = replicate (min (length ts) (RATE_LIMIT - length rec)) True
             @ replicate (length ts - (RATE_LIMIT - length rec)) False
       \<and> get_or_empty (snd (requests ip ts lg)) ip = rec @ take (RATE_LIMIT - length rec) ts
       \<and> (\<forall>a\<in>set (fst (requests ip ts lg)). a = Admitted \<or> (\<exists>r. 0 < r \<and> a = Denied (js_int r)))"
  using assms
proof (induction ts arbitrary: lg rec)
  case Nil
  then show ?case by simp
next
  case (Cons t ts)
  have all: "filter (\<lambda>r. t - r < COOLDOWN) (get_or_empty lg ip) = rec"
    using Cons.prems(1,2) by (simp add: filter_id_conv)
  show ?case
  proof (cases "length rec < RATE_LIMIT")
    case True
    let ?lg = "lg(ip \<mapsto> rec @ [t])"
    have step: "POST_rate_limit t ip lg = (Admitted, ?lg)"
      using POST_rate_limit_admit[of t lg ip] True all by simp
    have g: "get_or_empty ?lg ip = rec @ [t]" by (simp add: get_or_empty_def)
    have w: "\<forall>u\<in>set ts. \<forall>r\<in>set (rec @ [t]) \<union> set ts. u - r < COOLDOWN"
      using Cons.prems(2) by auto
    have l: "length (rec @ [t]) \<le> RATE_LIMIT" using True by simp
    note ih = Cons.IH[OF g w l]
    from True have k: "RATE_LIMIT - length rec = Suc (RATE_LIMIT - Suc (length rec))" by simp
    have r: "requests ip (t # ts) lg
        = (Admitted # fst (requests ip ts ?lg), snd (requests ip ts ?lg))"
      using step by (simp add: case_prod_beta)
    show ?thesis
      unfolding r using ih by (simp add: k fun_upd_def)
  next
    case False
    with Cons.prems(3) have full: "length rec = RATE_LIMIT" by simp
    have neg: "\<not> length (filter (\<lambda>r. t - r < COOLDOWN) (get_or_empty lg ip)) < RATE_LIMIT"
      using all False by simp
    note d = POST_rate_limit_deny[OF neg]
    have w: "\<forall>u\<in>set ts. \<forall>r\<in>set rec \<union> set ts. u - r < COOLDOWN"
      using Cons.prems(2) by auto
    note ih = Cons.IH[OF Cons.prems(1) w Cons.prems(3)]
    define q where "q = \<lceil>(of_int (COOLDOWN - (t -
          Min (set (filter (\<lambda>r. t - r < COOLDOWN) (get_or_empty lg ip))))) :: rat) / 1000\<rceil>"
    have q: "0 < q" unfolding q_def by (rule d(2))
    have r': "requests ip (t # ts) lg
        = (Denied (js_int q) # fst (requests ip ts lg), snd (requests ip ts lg))"
      unfolding q_def requests.simps d(1) by (simp add: case_prod_beta)
    show ?thesis
      unfolding r' using ih q by (auto simp add: full)
  qed
qed

text \<open>
  C2: with the log holding, for one caller, the request times of the last 60 seconds, a
  request is admitted and its time appended exactly when fewer than 10 retained times
  remain; otherwise it is denied, the log is left as it was, and the reported
  \<open>retryAfter\<close> is the time until the oldest retained request leaves the window, in
  seconds rounded up, which is positive.  Hence of any run of requests that lie within
  60 seconds of each other, sent by a caller with no earlier requests, the first 10 are
  admitted and every later one is denied.
\<close>

theorem rate_limit_sliding_window:
  "RATE_LIMIT = 10 \<and> COOLDOWN = 60000
   \<and> (length (filter (\<lambda>t. now - t < 60000) (get_or_empty lg ip)) < 10 \<longrightarrow>
        POST_rate_limit now ip lg
          = (Admitted, lg(ip \<mapsto> filter (\<lambda>t. now - t < 60000) (get_or_empty lg ip) @ [now]))
        \<and> checkRateLimit now ip lg
          = (True, lg(ip \<mapsto> filter (\<lambda>t. now - t < 60000) (get_or_empty lg ip) @ [now])))
   \<and> (\<not> length (filter (\<lambda>t. now - t < 60000) (get_or_empty lg ip)) < 10 \<longrightarrow>
        (\<exists>r. 0 < r
           \<and> r = \<lceil>(of_int (60000 - (now -
                   Min (set (filter (\<lambda>t. now - t < 60000) (get_or_empty lg ip))))) :: rat) / 1000\<rceil>
           \<and> POST_rate_limit now ip lg = (Denied (js_int r), lg))
        \<and> checkRateLimit now ip lg = (False, lg))
   \<and> (lg ip = None \<and> (\<forall>t\<in>set ts. \<forall>u\<in>set ts. u - t < 60000) \<longrightarrow>
        map (\<lambda>a. a = Admitted) (fst (requests ip ts lg))
          = replicate (min (length ts) 10) True @ replicate (length ts - 10) False
        \<and> get_or_empty (snd (requests ip ts lg)) ip = take 10 ts
        \<and> (\<forall>a\<in>set (fst (requests ip ts lg)).
              a = Admitted \<or> (\<exists>r. 0 < r \<and> a = Denied (js_int r))))"
proof -
  have c: "COOLDOWN = 60000" "RATE_LIMIT = 10"
    by (simp_all add: COOLDOWN_def RATE_LIMIT_def)
  have a: "POST_rate_limit now ip lg
          = (Admitted, lg(ip \<mapsto> filter (\<lambda>t. now - t < 60000) (get_or_empty lg ip) @ [now]))
        \<and> checkRateLimit now ip lg
          = (True, lg(ip \<mapsto> filter (\<lambda>t. now - t < 60000) (get_or_empty lg ip) @ [now]))"
    if "length (filter (\<lambda>t. now - t < 60000) (get_or_empty lg ip)) < 10"
    using that POST_rate_limit_admit[of now lg ip] checkRateLimit_eq[of now ip lg]
    unfolding c by simp
  have d: "(\<exists>r. 0 < r
           \<and> r = \<lceil>(of_int (60000 - (now -
                   Min (set (filter (\<lambda>t. now - t < 60000) (get_or_empty lg ip))))) :: rat) / 1000\<rceil>
           \<and> POST_rate_limit now ip lg = (Denied (js_int r), lg))
        \<and> checkRateLimit now ip lg = (False, lg)"
    if n: "\<not> length (filter (\<lambda>t. now - t < 60000) (get_or_empty lg ip)) < 10"
  proof -
    from n have n': "\<not> length (filter (\<lambda>t. now - t < COOLDOWN) (get_or_empty lg ip)) < RATE_LIMIT"
      unfolding c .
    from POST_rate_limit_deny[OF n'] checkRateLimit_eq[of now ip lg] n
    show ?thesis unfolding c by auto
  qed
  have s: "map (\<lambda>a. a = Admitted) (fst (requests ip ts lg))
          = replicate (min (length ts) 10) True @ replicate (length ts - 10) False
        \<and> get_or_empty (snd (requests ip ts lg)) ip = take 10 ts
        \<and> (\<forall>a\<in>set (fst (requests ip ts lg)).
              a = Admitted \<or> (\<exists>r. 0 < r \<and> a = Denied (js_int r)))"
    if h: "lg ip = None \<and> (\<forall>t\<in>set ts. \<forall>u\<in>set ts. u - t < 60000)"
  proof -
    from h have g: "get_or_empty lg ip = []" by (simp add: get_or_empty_def)
    from h have w: "\<forall>t\<in>set ts. \<forall>r\<in>set [] \<union> set ts. t - r < COOLDOWN"
      unfolding c by auto
    from requests_window[OF g w] show ?thesis unfolding c by simp
  qed
  from a d s c show ?thesis by blast
qed

theorem rate_limit_sliding_window_witness:
  "map (\<lambda>a. a = Admitted) (fst (requests ''10.0.0.1''
      [0, 1000, 2000, 3000, 4000, 5000, 6000, 7000, 8000, 9000, 10000] Map.empty))
     = [True, True, True, True, True, True, True, True, True, True, False]
   \<and> POST_rate_limit 10000 ''10.0.0.1''
        [''10.0.0.1'' \<mapsto> [0, 1000, 2000, 3000, 4000, 5000, 6000, 7000, 8000, 9000]]
     = (Denied (Fin 50), [''10.0.0.1'' \<mapsto> [0, 1000, 2000, 3000, 4000, 5000, 6000, 7000, 8000, 9000]])
   \<and> POST_rate_limit 70000 ''10.0.0.1''
        [''10.0.0.1'' \<mapsto> [0, 1000, 2000, 3000, 4000, 5000, 6000, 7000, 8000, 9000]]
     = (Admitted, [''10.0.0.1'' \<mapsto> [0, 1000, 2000, 3000, 4000, 5000, 6000, 7000, 8000, 9000]]
          (''10.0.0.1'' \<mapsto> [70000]))"
proof -
  let ?ts = "[0, 1000, 2000, 3000, 4000, 5000, 6000, 7000, 8000, 9000, 10000] :: int list"
  let ?lg = "[''10.0.0.1'' \<mapsto> [0, 1000, 2000, 3000, 4000, 5000, 6000, 7000, 8000, 9000 :: int]]"
  have h1: "Map.empty ''10.0.0.1'' = None \<and> (\<forall>t\<in>set ?ts. \<forall>u\<in>set ?ts. u - t < 60000)"
    by simp
  have h2: "\<not> length (filter (\<lambda>t. 10000 - t < 60000) (get_or_empty ?lg ''10.0.0.1'')) < 10"
    by (simp add: get_or_empty_def)
  have h3: "length (filter (\<lambda>t. 70000 - t < 60000) (get_or_empty ?lg ''10.0.0.1'')) < 10"
    by (simp add: get_or_empty_def)
  from h1 rate_limit_sliding_window[of 0 Map.empty "''10.0.0.1''" ?ts]
  have "map (\<lambda>a. a = Admitted) (fst (requests ''10.0.0.1'' ?ts Map.empty))
     = replicate (min (length ?ts) 10) True @ replicate (length ?ts - 10) False" by blast
  then have p1: "map (\<lambda>a. a = Admitted) (fst (requests ''10.0.0.1'' ?ts Map.empty))
     = [True, True, True, True, True, True, True, True, True, True, False]"
    by (simp add: numeral_eq_Suc)
  from h2 rate_limit_sliding_window[of 10000 ?lg "''10.0.0.1''" "[]"]
  have "\<exists>r. r = \<lceil>(of_int (60000 - (10000 -
                   Min (set (filter (\<lambda>t. 10000 - t < 60000) (get_or_empty ?lg ''10.0.0.1''))))) :: rat) / 1000\<rceil>
           \<and> POST_rate_limit 10000 ''10.0.0.1'' ?lg = (Denied (js_int r), ?lg)" by blast
  then have p2: "POST_rate_limit 10000 ''10.0.0.1'' ?lg = (Denied (Fin 50), ?lg)"
    by (simp add: get_or_empty_def js_int_def)
  from h3 rate_limit_sliding_window[of 70000 ?lg "''10.0.0.1''" "[]"]
  have "POST_rate_limit 70000 ''10.0.0.1'' ?lg
          = (Admitted, ?lg(''10.0.0.1'' \<mapsto> filter (\<lambda>t. 70000 - t < 60000) (get_or_empty ?lg ''10.0.0.1'') @ [70000]))"
    by blast
  then have p3: "POST_rate_limit 70000 ''10.0.0.1'' ?lg = (Admitted, ?lg(''10.0.0.1'' \<mapsto> [70000]))"
    by (simp add: get_or_empty_def)
  from p1 p2 p3 show ?thesis by blast
qed

section \<open>Properties of the retry wrapper\<close>

declare retry_loop.simps [simp del]

lemma calls_append: "calls (xs @ ys) = calls xs + calls ys"
  by (simp add: calls_def)

lemma calls_failed_attempts: "calls (failed_attempts n) = n"
  by (induction n) (simp_all add: failed_attempts_def calls_def)

lemma failed_attempts_Suc: "failed_attempts (Suc n) = failed_attempts n @ [Call n, Wait (2 ^ n * 1000)]"
  by (simp add: failed_attempts_def)

lemma retry_loop_all_fail:
  assumes "\<forall>j. i \<le> j \<and> j < n \<longrightarrow> call j = Inl (err j)" and "i \<le> n"
  shows "retry_loop call n i le (failed_attempts i)
           = (Inl (if i < n then Some (err (n - 1)) else le), failed_attempts n)"
  using assms
proof (induction "n - i" arbitrary: i le)
  case 0
  then have "i = n" by simp
  then show ?case by (simp add: retry_loop.simps)
next
  case (Suc k)
  then have lt: "i < n" and c: "call i = Inl (err i)" by auto
  have ih: "retry_loop call n (Suc i) (Some (err i)) (failed_attempts (Suc i))
      = (Inl (if Suc i < n then Some (err (n - 1)) else Some (err i)), failed_attempts n)"
    using Suc by (intro Suc.hyps(1)) auto
  have "(if Suc i < n then Some (err (n - 1)) else Some (err i)) = Some (err (n - 1))"
    using lt by (cases "Suc i < n") (auto simp: less_Suc_eq dest!: not_less_eq[THEN iffD1])
  with ih lt c show ?case
    by (subst retry_loop.simps) (simp add: failed_attempts_Suc)
qed

lemma retry_loop_success:
  assumes "\<forall>j. i \<le> j \<and> j < k \<longrightarrow> call j = Inl (err j)" and "call k = Inr r" and "i \<le> k" "k < n"
  shows "retry_loop call n i le (failed_attempts i) = (Inr r, failed_attempts k @ [Call k])"
  using assms
proof (induction "k - i" arbitrary: i le)
  case 0
  then have "i = k" by simp
  with 0 show ?case by (subst retry_loop.simps) simp
next
  case (Suc d)
  then have lt: "i < k" and c: "call i = Inl (err i)" by auto
  have ih: "retry_loop call n (Suc i) (Some (err i)) (failed_attempts (Suc i))
      = (Inr r, failed_attempts k @ [Call k])"
    using Suc by (intro Suc.hyps(1)) auto
  with lt c Suc.prems(4) show ?case
    by (subst retry_loop.simps) (simp add: failed_attempts_Suc)
qed

lemma retry_loop_result:
  "retry_loop call n i le tr = (Inr r, tr') \<Longrightarrow> \<exists>j<n. call j = Inr r"
proof (induction call n i le tr rule: retry_loop.induct)
  case (1 call maxRetries i lastError trace)
  show ?case
  proof (cases "i < maxRetries")
    case False
    with "1.prems" show ?thesis by (subst (asm) retry_loop.simps) simp
  next
    case True
    show ?thesis
    proof (cases "call i")
      case (Inl e)
      with True "1.prems" have "retry_loop call maxRetries (i + 1) (Some e)
               (trace @ [Call i, Wait (2 ^ i * 1000)]) = (Inr r, tr')"
        by (subst (asm) retry_loop.simps) simp
      with "1.IH"[OF True Inl] show ?thesis by simp
    next
      case (Inr x)
      with True "1.prems" have "x = r" by (subst (asm) retry_loop.simps) simp
      with Inr True show ?thesis by blast
    qed
  qed
qed

lemma retry_loop_calls:
  "calls (snd (retry_loop call n i le tr)) \<le> calls tr + (n - i)"
proof (induction call n i le tr rule: retry_loop.induct)
  case (1 call maxRetries i lastError trace)
  show ?case
  proof (cases "i < maxRetries")
    case False
    then show ?thesis by (subst retry_loop.simps) simp
  next
    case True
    show ?thesis
    proof (cases "call i")
      case (Inl e)
      from "1.IH"[OF True Inl] True Inl show ?thesis
        by (subst retry_loop.simps) (simp add: calls_append, simp add: calls_def)
    next
      case (Inr x)
      with True show ?thesis
        by (subst retry_loop.simps) (simp add: calls_append, simp add: calls_def)
    qed
  qed
qed

text \<open>
  C3: with the default bound of 2, the retry wrapper invokes the analysis at most twice,
  one invocation after the other; after the failed attempt number \<open>i\<close> (counted from 0)
  it waits \<open>2 ^ i\<close> seconds.  When both attempts fail it throws the error of the second
  attempt as it received it, and a result it returns is always the result some attempt
  returned: the wrapper produces no result of its own.  The same holds for any bound
  \<open>n\<close>.
\<close>

theorem retryAnalysis_two_attempts:
  "(call 0 = Inr r \<longrightarrow> retryAnalysis_default call = (Inr r, [Call 0]))
   \<and> (call 0 = Inl e0 \<and> call 1 = Inr r \<longrightarrow>
        retryAnalysis_default call = (Inr r, [Call 0, Wait 1000, Call 1]))
   \<and> (call 0 = Inl e0 \<and> call 1 = Inl e1 \<longrightarrow>
        retryAnalysis_default call
          = (Inl (Some e1), [Call 0, Wait 1000, Call 1, Wait 2000]))
   \<and> calls (snd (retryAnalysis_default call)) \<le> 2
   \<and> (fst (retryAnalysis_default call) = Inr r \<longrightarrow> (\<exists>j<2. call j = Inr r))
   \<and> ((\<forall>j<n. call j = Inl (err j)) \<and> 0 < n \<longrightarrow>
        retryAnalysis call n = (Inl (Some (err (n - 1))), failed_attempts n))
   \<and> calls (snd (retryAnalysis call n)) \<le> n
   \<and> (fst (retryAnalysis call n) = Inr r \<longrightarrow> (\<exists>j<n. call j = Inr r))"
proof -
  have a: "call 0 = Inr r \<longrightarrow> retryAnalysis_default call = (Inr r, [Call 0])"
    by (simp add: retryAnalysis_default_def retryAnalysis_def retry_loop.simps)
  have b: "call 0 = Inl e0 \<and> call 1 = Inr r \<longrightarrow>
        retryAnalysis_default call = (Inr r, [Call 0, Wait 1000, Call 1])"
    by (simp add: retryAnalysis_default_def retryAnalysis_def retry_loop.simps)
  have c: "call 0 = Inl e0 \<and> call 1 = Inl e1 \<longrightarrow>
        retryAnalysis_default call
          = (Inl (Some e1), [Call 0, Wait 1000, Call 1, Wait 2000])"
    by (simp add: retryAnalysis_default_def retryAnalysis_def retry_loop.simps)
  have d: "calls (snd (retryAnalysis call m)) \<le> m" for m
    using retry_loop_calls[of call m 0 None "[]"] by (simp add: retryAnalysis_def calls_def)
  have e: "fst (retryAnalysis call m) = Inr r \<longrightarrow> (\<exists>j<m. call j = Inr r)" for m
    using retry_loop_result[of call m 0 None "[]" r "snd (retryAnalysis call m)"]
    by (simp add: retryAnalysis_def prod_eq_iff)
  have f: "(\<forall>j<n. call j = Inl (err j)) \<and> 0 < n \<longrightarrow>
        retryAnalysis call n = (Inl (Some (err (n - 1))), failed_attempts n)"
    using retry_loop_all_fail[of 0 n call err None]
    by (simp add: retryAnalysis_def failed_attempts_def)
  have d2: "calls (snd (retryAnalysis_default call)) \<le> 2"
    using d[of 2] by (simp add: retryAnalysis_default_def)
  have e2: "fst (retryAnalysis_default call) = Inr r \<longrightarrow> (\<exists>j<2. call j = Inr r)"
    using e[of 2] by (simp add: retryAnalysis_default_def)
  show ?thesis
    by (intro conjI a b c d2 e2 f d e)
qed



theorem retryAnalysis_two_attempts_witness:
  "retryAnalysis_default (\<lambda>i. if i = 0 then Inl ''timeout'' else if i = 1 then Inl ''bad json''
        else Inr ''analysis'')
     = (Inl (Some ''bad json''), [Call 0, Wait 1000, Call 1, Wait 2000])
   \<and> retryAnalysis_default (\<lambda>i. if i = 0 then Inl ''timeout'' else Inr ''analysis'')
     = (Inr ''analysis'', [Call 0, Wait 1000, Call 1])
   \<and> retryAnalysis_default (\<lambda>i. (Inr ''analysis'' :: string + string))
     = (Inr ''analysis'', [Call 0])
   \<and> retryAnalysis (\<lambda>i. (Inl (''failure'', i) :: (string \<times> nat) + string)) 3
     = (Inl (Some (''failure'', 2)),
        [Call 0, Wait 1000, Call 1, Wait 2000, Call 2, Wait 4000])"
proof -
  let ?c1 = "\<lambda>i::nat. if i = 0 then Inl ''timeout'' else if i = 1 then Inl ''bad json''
        else (Inr ''analysis'' :: string + string)"
  let ?c2 = "\<lambda>i::nat. if i = 0 then Inl ''timeout'' else (Inr ''analysis'' :: string + string)"
  let ?c3 = "\<lambda>i::nat. (Inr ''analysis'' :: string + string)"
  let ?c4 = "\<lambda>i::nat. (Inl (''failure'', i) :: (string \<times> nat) + string)"
  have h1: "?c1 0 = Inl ''timeout'' \<and> ?c1 1 = Inl ''bad json''" by simp
  have h2: "?c2 0 = Inl ''timeout'' \<and> ?c2 1 = Inr ''analysis''" by simp
  have h3: "?c3 0 = Inr ''analysis''" by simp
  have h4: "(\<forall>j<3. ?c4 j = Inl (''failure'', j)) \<and> (0::nat) < 3" by simp
  have fa: "failed_attempts 3 = [Call 0, Wait 1000, Call 1, Wait 2000, Call 2, Wait 4000]"
    by code_simp
  note t1 = retryAnalysis_two_attempts[of ?c1 "''x''" "''timeout''" "''bad json''" 0 "\<lambda>_. []"]
  note t2 = retryAnalysis_two_attempts[of ?c2 "''analysis''" "''timeout''" "[]" 0 "\<lambda>_. []"]
  note t3 = retryAnalysis_two_attempts[of ?c3 "''analysis''" "[]" "[]" 0 "\<lambda>_. []"]
  note t4 = retryAnalysis_two_attempts[of ?c4 "[]" "(''failure'', 0)" "(''failure'', 1)" 3
      "\<lambda>j. (''failure'', j)"]
  have p1: "retryAnalysis_default ?c1
     = (Inl (Some ''bad json''), [Call 0, Wait 1000, Call 1, Wait 2000])"
    by (rule t1[THEN conjunct2, THEN conjunct2, THEN conjunct1, THEN mp, OF h1])
  have p2: "retryAnalysis_default ?c2 = (Inr ''analysis'', [Call 0, Wait 1000, Call 1])"
    by (rule t2[THEN conjunct2, THEN conjunct1, THEN mp, OF h2])
  have p3: "retryAnalysis_default ?c3 = (Inr ''analysis'', [Call 0])"
    by (rule t3[THEN conjunct1, THEN mp, OF h3])
  have p4: "retryAnalysis ?c4 3 = (Inl (Some (''failure'', 3 - 1)), failed_attempts 3)"
    by (rule t4[THEN conjunct2, THEN conjunct2, THEN conjunct2, THEN conjunct2, THEN conjunct2,
          THEN conjunct1, THEN mp, OF h4])
  from p1 p2 p3 p4 fa show ?thesis by simp
qed

section \<open>Properties of the enrichment client and its cache\<close>

lemma cleanups_keep:
  assumes "c key = Some e" and "\<forall>s\<in>set ss. s - timestamp e \<le> CACHE_TTL"
  shows "cleanups ss c key = Some e"
  using assms unfolding cleanups_def
  by (induction ss arbitrary: c) (simp_all add: cleanup_def)

lemma cleanup_old:
  "cleanup now c key = Some e \<Longrightarrow> c key = Some e \<and> now - timestamp e \<le> CACHE_TTL"
  by (auto simp: cleanup_def split: option.splits if_splits)

lemma cleanup_removes:
  "c key = Some e \<Longrightarrow> now - timestamp e > CACHE_TTL \<Longrightarrow> cleanup now c key = None"
  by (simp add: cleanup_def)

lemma getAIAnalysis_hit:
  assumes "c key = Some e" and "now - timestamp e < CACHE_TTL"
  shows "getAIAnalysis P k r now st key c = (Inr (analysis e), c)"
  using assms by (simp add: getAIAnalysis_def)

lemma getAIAnalysis_expired:
  assumes "c key = Some e" and "\<not> now - timestamp e < CACHE_TTL"
  shows "getAIAnalysis P k r now st key c = getAIAnalysis_call P k r st key c"
  using assms by (simp add: getAIAnalysis_def)

lemma getAIAnalysis_call_fst:
  "fst (getAIAnalysis_call P k r st key c) = fst (getAIAnalysis_call P k r st key c')"
  by (simp add: getAIAnalysis_call_def split: response.splits option.splits)

lemma getAIAnalysis_store:
  assumes "getAIAnalysis_call P k r st key c = (Inr a, c')"
  shows "c' = c(key \<mapsto> \<lparr>analysis = a, timestamp = st\<rparr>)"
  using assms by (auto simp: getAIAnalysis_call_def split: response.splits option.splits if_splits)

text \<open>
  C4: after a call has stored an analysis under a key, every lookup of that key less
  than 30 minutes after the time of storing returns that analysis without calling the
  service, whatever cleanups ran in between; a lookup at an age of 30 minutes or more
  proceeds as if the key were absent; a lookup answers from the cache only with an entry
  younger than 30 minutes; and a cleanup leaves no entry older than 30 minutes behind.
\<close>

theorem cache_round_trip:
  "CACHE_TTL = 1800000
   \<and> (getAIAnalysis P k r t0 t key c = (Inr a, c') \<and> \<not> (\<exists>e. c key = Some e \<and> t0 - timestamp e < 1800000)
        \<and> (\<forall>s\<in>set sweeps. s \<le> now) \<and> now - t < 1800000 \<longrightarrow>
        getAIAnalysis P' k' r' now st key (cleanups sweeps c') = (Inr a, cleanups sweeps c'))
   \<and> (c key = Some e \<and> now - timestamp e \<ge> 1800000 \<longrightarrow>
        getAIAnalysis P k r now st key c = getAIAnalysis_call P k r st key c
        \<and> fst (getAIAnalysis P k r now st key c) = fst (getAIAnalysis P k r now st key (c(key := None)))
        \<and> getAIAnalysis P False r now st key c = (Inl (Error ''OpenAI API key not configured''), c))
   \<and> (getAIAnalysis P False r now st key c = (Inr a, c') \<longrightarrow>
        (\<exists>e. c key = Some e \<and> analysis e = a \<and> now - timestamp e < 1800000))
   \<and> (cleanup now c key = Some e \<longrightarrow> c key = Some e \<and> now - timestamp e \<le> 1800000)
   \<and> (c key = Some e \<and> now - timestamp e > 1800000 \<longrightarrow> cleanup now c key = None)"
proof -
  have ttl: "CACHE_TTL = 1800000" by (simp add: CACHE_TTL_def)
  have rt: "getAIAnalysis P' k' r' now st key (cleanups sweeps c') = (Inr a, cleanups sweeps c')"
    if h: "getAIAnalysis P k r t0 t key c = (Inr a, c') \<and> \<not> (\<exists>e. c key = Some e \<and> t0 - timestamp e < 1800000)
        \<and> (\<forall>s\<in>set sweeps. s \<le> now) \<and> now - t < 1800000"
  proof -
    from h have "getAIAnalysis P k r t0 t key c = getAIAnalysis_call P k r t key c"
      by (auto simp: getAIAnalysis_def ttl split: option.splits)
    with h have "c' = c(key \<mapsto> \<lparr>analysis = a, timestamp = t\<rparr>)"
      using getAIAnalysis_store[of P k r t key c a c'] by simp
    then have s: "c' key = Some \<lparr>analysis = a, timestamp = t\<rparr>" by simp
    have "\<forall>s\<in>set sweeps. s - timestamp \<lparr>analysis = a, timestamp = t\<rparr> \<le> CACHE_TTL"
      using h unfolding ttl by auto
    with s have "cleanups sweeps c' key = Some \<lparr>analysis = a, timestamp = t\<rparr>"
      by (rule cleanups_keep[of c' key _ sweeps])
    with h show ?thesis
      using getAIAnalysis_hit[of "cleanups sweeps c'" key "\<lparr>analysis = a, timestamp = t\<rparr>" now P' k' r' st]
      by (simp add: ttl)
  qed
  have ex: "getAIAnalysis P k r now st key c = getAIAnalysis_call P k r st key c
        \<and> fst (getAIAnalysis P k r now st key c) = fst (getAIAnalysis P k r now st key (c(key := None)))
        \<and> getAIAnalysis P False r now st key c = (Inl (Error ''OpenAI API key not configured''), c)"
    if h: "c key = Some e \<and> now - timestamp e \<ge> 1800000"
  proof -
    from h have n: "\<not> now - timestamp e < CACHE_TTL" and s: "c key = Some e" by (simp_all add: ttl)
    have 1: "getAIAnalysis P k r now st key c = getAIAnalysis_call P k r st key c"
      using getAIAnalysis_expired[of c key e now P k r st] s n by simp
    have 2: "getAIAnalysis P k r now st key (c(key := None))
        = getAIAnalysis_call P k r st key (c(key := None))"
      by (simp add: getAIAnalysis_def)
    have 3: "getAIAnalysis P False r now st key c = (Inl (Error ''OpenAI API key not configured''), c)"
      using getAIAnalysis_expired[of c key e now P False r st] s n by (simp add: getAIAnalysis_call_def)
    from 1 2 3 getAIAnalysis_call_fst[of P k r st key c "c(key := None)"] show ?thesis by simp
  qed
  have hit: "\<exists>e. c key = Some e \<and> analysis e = a \<and> now - timestamp e < 1800000"
    if "getAIAnalysis P False r now st key c = (Inr a, c')"
    using that
    by (auto simp: getAIAnalysis_def getAIAnalysis_call_def ttl split: option.splits if_splits)
  have sw: "c key = Some e \<and> now - timestamp e \<le> 1800000" if "cleanup now c key = Some e"
    using cleanup_old[OF that] by (simp add: ttl)
  have rm: "cleanup now c key = None" if "c key = Some e \<and> now - timestamp e > 1800000"
    using that cleanup_removes[of c key e now] by (simp add: ttl)
  from ttl rt ex hit sw rm show ?thesis by (intro conjI impI) blast+
qed

theorem cache_round_trip_witness:
  "getAIAnalysis (\<lambda>s. None) False (InvokeFailed ''offline'') 1800004 1800004 ''entry_{}''
      (cleanups [1000, 1800000]
        (snd (getAIAnalysis (\<lambda>s. Some (JObject [(''insights'', JArray [])])) True (Content ''{}'')
                0 5 ''entry_{}'' Map.empty)))
     = (Inr (JObject [(''insights'', JArray [])]),
        [''entry_{}'' \<mapsto> \<lparr>analysis = JObject [(''insights'', JArray [])], timestamp = 5\<rparr>])
   \<and> getAIAnalysis (\<lambda>s. None) False (InvokeFailed ''offline'') 1800005 1800005 ''entry_{}''
        [''entry_{}'' \<mapsto> \<lparr>analysis = JNull, timestamp = 5\<rparr>]
     = (Inl (Error ''OpenAI API key not configured''),
        [''entry_{}'' \<mapsto> \<lparr>analysis = JNull, timestamp = 5\<rparr>])
   \<and> cleanup 1800006 [''entry_{}'' \<mapsto> \<lparr>analysis = JNull, timestamp = 5\<rparr>] ''entry_{}'' = None"
proof -
  let ?P = "\<lambda>s::string. Some (JObject [(''insights'', JArray [])])"
  let ?a = "JObject [(''insights'', JArray [])]"
  let ?c' = "[''entry_{}'' \<mapsto> \<lparr>analysis = ?a, timestamp = 5\<rparr>]"
  let ?d = "[''entry_{}'' \<mapsto> \<lparr>analysis = JNull, timestamp = 5\<rparr>]"
  have st: "getAIAnalysis ?P True (Content ''{}'') 0 5 ''entry_{}'' Map.empty = (Inr ?a, ?c')"
    by (simp add: getAIAnalysis_def getAIAnalysis_call_def)
  have cl: "cleanups [1000, 1800000] ?c' = ?c'"
    by (rule ext) (simp add: cleanups_def cleanup_def CACHE_TTL_def)
  have h1: "getAIAnalysis ?P True (Content ''{}'') 0 5 ''entry_{}'' Map.empty = (Inr ?a, ?c')
        \<and> \<not> (\<exists>e. Map.empty ''entry_{}'' = Some e \<and> 0 - timestamp e < 1800000)
        \<and> (\<forall>s\<in>set [1000, 1800000]. s \<le> (1800004::int)) \<and> (1800004::int) - 5 < 1800000"
    using st by simp
  have h2: "?d ''entry_{}'' = Some \<lparr>analysis = JNull, timestamp = 5\<rparr>
        \<and> 1800005 - timestamp \<lparr>analysis = JNull, timestamp = 5\<rparr> \<ge> 1800000"
    by simp
  have h3: "?d ''entry_{}'' = Some \<lparr>analysis = JNull, timestamp = 5\<rparr>
        \<and> 1800006 - timestamp \<lparr>analysis = JNull, timestamp = 5\<rparr> > 1800000"
    by simp
  note t1 = cache_round_trip[where P = ?P and k = True and r = "Content ''{}''" and ?t0.0 = 0
      and t = 5 and key = "''entry_{}''" and c = Map.empty and a = ?a and c' = ?c'
      and sweeps = "[1000, 1800000]" and now = 1800004 and P' = "\<lambda>s. None" and k' = False
      and r' = "InvokeFailed ''offline''" and st = 1800004]
  note t2 = cache_round_trip[where P = "\<lambda>s. None" and r = "InvokeFailed ''offline''"
      and key = "''entry_{}''" and c = ?d and now = 1800005 and st = 1800005
      and e = "\<lparr>analysis = JNull, timestamp = 5\<rparr>"]
  note t3 = cache_round_trip[where key = "''entry_{}''" and c = ?d and now = 1800006
      and e = "\<lparr>analysis = JNull, timestamp = 5\<rparr>"]
  have p1: "getAIAnalysis (\<lambda>s. None) False (InvokeFailed ''offline'') 1800004 1800004 ''entry_{}''
      (cleanups [1000, 1800000] ?c') = (Inr ?a, cleanups [1000, 1800000] ?c')"
    by (rule t1[THEN conjunct2, THEN conjunct1, THEN mp, OF h1])
  have p2: "getAIAnalysis (\<lambda>s. None) False (InvokeFailed ''offline'') 1800005 1800005 ''entry_{}'' ?d
     = (Inl (Error ''OpenAI API key not configured''), ?d)"
    by (rule t2[THEN conjunct2, THEN conjunct2, THEN conjunct1, THEN mp, OF h2,
          THEN conjunct2, THEN conjunct2])
  have p3: "cleanup 1800006 ?d ''entry_{}'' = None"
    by (rule t3[THEN conjunct2, THEN conjunct2, THEN conjunct2, THEN conjunct2,
          THEN conjunct2, THEN mp, OF h3])
  from p1 p2 p3 show ?thesis unfolding st snd_conv cl by simp
qed

lemma getAIAnalysis_first_validates:
  "getAIAnalysis_first P k r = Inr parsed \<Longrightarrow>
     isArray (property parsed ''insights'') \<and> isArray (property parsed ''suggestions'')"
  by (auto simp: getAIAnalysis_first_def getAIAnalysis_try_def
      split: if_splits response.splits option.splits json.splits sum.splits)

lemma getAIAnalysis_unvalidated:
  "P txt = Some parsed \<Longrightarrow>
     getAIAnalysis P True (Content txt) now st key Map.empty
       = (Inr parsed, [key \<mapsto> \<lparr>analysis = parsed, timestamp = st\<rparr>])"
  by (simp add: getAIAnalysis_def getAIAnalysis_call_def)

text \<open>
  C8: the enrichment call has to fail when the returned content is not JSON with an
  \<open>insights\<close> array and a \<open>suggestions\<close> array.  The first \<open>getAIAnalysis\<close> rejects the
  content \<open>{}\<close>; the second one, which caches, returns it as a result and stores it.
\<close>

theorem getAIAnalysis_missing_arrays:
  "getAIAnalysis (\<lambda>s. if s = ''{}'' then Some (JObject []) else None) True (Content ''{}'')
       0 1 ''entry_{}'' Map.empty
     = (Inr (JObject []), [''entry_{}'' \<mapsto> \<lparr>analysis = JObject [], timestamp = 1\<rparr>])
   \<and> getAIAnalysis_first (\<lambda>s. if s = ''{}'' then Some (JObject []) else None) True
       (Content ''{}'')
     = Inl (Error ''AI analysis failed'')"
  by (simp add: getAIAnalysis_def getAIAnalysis_call_def getAIAnalysis_first_def
      getAIAnalysis_try_def)

section \<open>Properties of the sleep sub-score\<close>

lemma fl_not_negative: "0 \<le> q \<Longrightarrow> fl q \<noteq> NaN \<and> \<not> js_lt (fl q) (Fin 0)"
  using fl_nonneg[of q] by auto

lemma dbl_add_not_negative:
  assumes "a \<noteq> NaN \<and> \<not> js_lt a (Fin 0)" and "b \<noteq> NaN \<and> \<not> js_lt b (Fin 0)"
  shows "dbl_add a b \<noteq> NaN \<and> \<not> js_lt (dbl_add a b) (Fin 0)"
  using assms by (cases a; cases b) (simp_all add: dbl_add_def fl_not_negative)

lemma foldl_dbl_add_not_negative:
  assumes "a \<noteq> NaN \<and> \<not> js_lt a (Fin 0)"
    and "\<forall>x\<in>set xs. x \<noteq> NaN \<and> \<not> js_lt x (Fin 0)"
  shows "foldl dbl_add a xs \<noteq> NaN \<and> \<not> js_lt (foldl dbl_add a xs) (Fin 0)"
  using assms
proof (induction xs arbitrary: a)
  case Nil
  then show ?case by simp
next
  case (Cons x xs)
  have "dbl_add a x \<noteq> NaN \<and> \<not> js_lt (dbl_add a x) (Fin 0)"
    using Cons.prems by (intro dbl_add_not_negative) simp_all
  then show ?case using Cons.IH[of "dbl_add a x"] Cons.prems(2) by simp
qed

lemma deviation_not_negative:
  assumes "x \<noteq> NaN"
  shows "math_abs (dbl_sub x (Fin t)) \<noteq> NaN
   \<and> \<not> js_lt (math_abs (dbl_sub x (Fin t))) (Fin 0)"
proof (cases x)
  case (Fin h)
  have "fl (h - t) \<noteq> NaN" by (rule fl_not_NaN)
  then show ?thesis using Fin
    by (cases "fl (h - t)") (simp_all add: dbl_sub_def js_sub_def)
next
  case PosInf
  then show ?thesis by (simp add: dbl_sub_def js_sub_def)
next
  case NegInf
  then show ?thesis by (simp add: dbl_sub_def js_sub_def)
next
  case NaN
  with assms show ?thesis by simp
qed

lemma dbl_div_not_negative:
  assumes "a \<noteq> NaN \<and> \<not> js_lt a (Fin 0)" and "0 < n"
  shows "dbl_div a (Fin n) \<noteq> NaN \<and> \<not> js_lt (dbl_div a (Fin n)) (Fin 0)"
  using assms by (cases a) (simp_all add: dbl_div_def fl_not_negative)

lemma dbl_mul_not_negative:
  assumes "a \<noteq> NaN \<and> \<not> js_lt a (Fin 0)" and "0 < n"
  shows "dbl_mul a (Fin n) \<noteq> NaN \<and> \<not> js_lt (dbl_mul a (Fin n)) (Fin 0)"
  using assms by (cases a) (simp_all add: dbl_mul_def fl_not_negative)

lemma avgDeviation_not_negative:
  assumes "hours \<noteq> []" and "\<forall>x\<in>set hours. x \<noteq> NaN"
  shows "avgDeviation hours t \<noteq> NaN \<and> \<not> js_lt (avgDeviation hours t) (Fin 0)"
  unfolding avgDeviation_def
proof (rule dbl_div_not_negative)
  show "foldl dbl_add (Fin 0) (map (\<lambda>h. math_abs (dbl_sub h (Fin t))) hours) \<noteq> NaN
      \<and> \<not> js_lt (foldl dbl_add (Fin 0) (map (\<lambda>h. math_abs (dbl_sub h (Fin t))) hours)) (Fin 0)"
    using assms(2) by (intro foldl_dbl_add_not_negative) (auto simp: deviation_not_negative)
  show "0 < (of_nat (length hours) :: rat)" using assms(1) by simp
qed

lemma score_not_NaN:
  assumes "y \<noteq> NaN \<and> \<not> js_lt y (Fin 0)"
  shows "dbl_sub (Fin 100) y \<noteq> NaN"
  using assms by (cases y) (simp_all add: dbl_sub_def js_sub_def fl_not_NaN)

lemma clamp_int:
  "js_max (Fin 0) (js_min (Fin 100) (Fin (of_int m))) = Fin (of_int (max 0 (min 100 m)))"
  by (simp add: js_max_def js_min_def max_def min_def)

lemma clamp_range:
  assumes "x \<noteq> NaN"
  shows "\<exists>k. js_max (Fin 0) (js_min (Fin 100) (math_round x)) = Fin (of_int k) \<and> 0 \<le> k \<and> k \<le> 100"
proof (cases x)
  case (Fin q)
  then have "js_max (Fin 0) (js_min (Fin 100) (math_round x))
      = Fin (of_int (max 0 (min 100 \<lfloor>q + 1 / 2\<rfloor>)))"
    by (simp only: math_round.simps clamp_int)
  then show ?thesis by (intro exI[of _ "max 0 (min 100 \<lfloor>q + 1 / 2\<rfloor>)"]) simp
next
  case PosInf
  then have "js_max (Fin 0) (js_min (Fin 100) (math_round x)) = Fin (of_int 100)"
    by (simp add: js_max_def js_min_def)
  then show ?thesis by (intro exI[of _ 100]) simp
next
  case NegInf
  then have "js_max (Fin 0) (js_min (Fin 100) (math_round x)) = Fin (of_int 0)"
    by (simp add: js_max_def js_min_def)
  then show ?thesis by (intro exI[of _ 0]) simp
next
  case NaN
  with assms show ?thesis by simp
qed

lemma consistency_target:
  assumes "2 \<le> length data"
  shows "calculateConsistencyScore data (Some t)
     = js_max (Fin 0) (js_min (Fin 100) (math_round
         (dbl_sub (Fin 100) (dbl_mul (avgDeviation (map value data) t) (Fin 10)))))"
  using assms
  by (simp add: calculateConsistencyScore_def Let_def reduce_def avgDeviation_def comp_def)

lemma values_sleepData: "map value (sleepData entries) = sleep_numbers entries"
  by (simp add: sleepData_def sleep_numbers_def comp_def)

lemma sleep_numbers_not_NaN: "\<forall>x\<in>set (sleep_numbers entries). x \<noteq> NaN"
  by (auto simp: sleep_numbers_def fl_not_NaN split: option.splits)

lemma not_inherited_own: "\<not> inherited []" "\<not> inherited ''good''" "\<not> inherited ''normal''" "\<not> inherited ''poor''"
  by (simp_all add: inherited_def)

lemma qualityMap_label:
  assumes "case q of None \<Rightarrow> True | Some l \<Rightarrow> \<not> inherited l"
  shows "qualityMap (case q of None \<Rightarrow> ''normal'' | Some l \<Rightarrow> if l = [] then ''normal'' else l)
     = Some (label_value q)"
  using assms by (cases q) (auto simp: qualityMap_def label_value_def)

lemma looked_up:
  assumes "no_inherited_label entries"
  shows "map (\<lambda>item. qualityMap (quality item)) (sleepData entries)
     = map (\<lambda>e. Some (label_value (sleepQuality e))) entries"
  using assms
  by (auto simp: sleepData_def no_inherited_label_def qualityMap_label)

lemma analyzeSleepPatterns_consistency:
  "entries \<noteq> [] \<Longrightarrow> consistency (analyzeSleepPatterns entries)
     = calculateConsistencyScore (sleepData entries) (Some 8)"
  by (simp add: analyzeSleepPatterns_def Let_def)

lemma reduce_labels:
  "reduce (\<lambda>acc v. dbl_add acc (Fin v)) a vs = foldl dbl_add a (map Fin vs)"
  unfolding reduce_def by (induction vs arbitrary: a) simp_all

lemma analyzeSleepPatterns_quality:
  assumes "entries \<noteq> []" "no_inherited_label entries"
  shows "qualityScore (analyzeSleepPatterns entries) = math_round (qualityMean entries)"
proof -
  have l: "map (\<lambda>item. qualityMap (quality item)) (sleepData entries)
     = map (\<lambda>e. Some (label_value (sleepQuality e))) entries"
    by (rule looked_up[OF assms(2)])
  have n: "None \<notin> set (map (\<lambda>e. Some (label_value (sleepQuality e))) entries)" by auto
  have m: "map the (map (\<lambda>e. Some (label_value (sleepQuality e))) entries)
      = map (\<lambda>e. label_value (sleepQuality e)) entries" by simp
  have f: "map Fin (map (\<lambda>e. label_value (sleepQuality e)) entries)
      = map (\<lambda>e. Fin (label_value (sleepQuality e))) entries" by simp
  have len: "length (sleepData entries) = length entries" by (simp add: sleepData_def)
  show ?thesis
    using assms(1) n
    unfolding analyzeSleepPatterns_def Let_def l m reduce_labels qualityMean_def len f
    by (simp del: set_map map_map)
qed

lemma qualityMean_not_negative:
  assumes "entries \<noteq> []"
  shows "qualityMean entries \<noteq> NaN \<and> \<not> js_lt (qualityMean entries) (Fin 0)"
  unfolding qualityMean_def
proof (rule dbl_div_not_negative)
  show "foldl dbl_add (Fin 0) (map (\<lambda>e. Fin (label_value (sleepQuality e))) entries) \<noteq> NaN
      \<and> \<not> js_lt (foldl dbl_add (Fin 0) (map (\<lambda>e. Fin (label_value (sleepQuality e))) entries)) (Fin 0)"
    by (rule foldl_dbl_add_not_negative) (auto simp: label_value_def)
  show "0 < (of_nat (length entries) :: rat)" using assms by simp
qed

lemma consistency_range:
  "\<exists>k. consistency (analyzeSleepPatterns entries) = Fin (of_int k) \<and> 0 \<le> k \<and> k \<le> 100"
proof -
  consider "entries = []" | "length entries = 1" | "2 \<le> length entries"
    by (cases entries) (auto simp: Suc_le_eq)
  then show ?thesis
  proof cases
    case 1
    then have "consistency (analyzeSleepPatterns entries) = Fin (of_int 0)"
      by (simp add: analyzeSleepPatterns_def)
    then show ?thesis by (intro exI[of _ 0]) simp
  next
    case 2
    then have "consistency (analyzeSleepPatterns entries) = Fin (of_int 0)"
      by (auto simp: analyzeSleepPatterns_def calculateConsistencyScore_def sleepData_def Let_def)
    then show ?thesis by (intro exI[of _ 0]) simp
  next
    case 3
    then have ne: "entries \<noteq> []" by auto
    from 3 have l: "2 \<le> length (sleepData entries)" by (simp add: sleepData_def)
    have h: "sleep_numbers entries \<noteq> []" using ne by (simp add: sleep_numbers_def)
    have "dbl_mul (avgDeviation (sleep_numbers entries) 8) (Fin 10) \<noteq> NaN
        \<and> \<not> js_lt (dbl_mul (avgDeviation (sleep_numbers entries) 8) (Fin 10)) (Fin 0)"
      by (rule dbl_mul_not_negative[OF avgDeviation_not_negative[OF h sleep_numbers_not_NaN]])
        simp
    then have "dbl_sub (Fin 100) (dbl_mul (avgDeviation (sleep_numbers entries) 8) (Fin 10)) \<noteq> NaN"
      by (rule score_not_NaN)
    then show ?thesis
      unfolding analyzeSleepPatterns_consistency[OF ne] consistency_target[OF l] values_sleepData
      by (rule clamp_range)
  qed
qed

text \<open>
  C7, as the code computes it.  For two or more entries the sleep consistency score is
  computed in binary64 arithmetic, every operation rounded: the absolute deviations of
  the sleep hours (a missing value counts as 0) from 8 are summed from the left starting
  at 0, the sum is divided by the number of entries, the quotient is multiplied by 10
  and the product is subtracted from 100; the difference is rounded to the nearest
  integer and clamped to the range from 0 to 100.  For a single entry the score is 0.
  For every series the score is an integer from 0 to 100.  For a non-empty series whose
  quality labels do not name inherited object properties, the quality score is the
  rounded binary64 mean of the labels' values (good 100, normal 70, poor 40, anything
  else and a missing label 70), and the sleep sub-score is the binary64 sum of the
  consistency times the number 0.4 and the quality score times the number 0.6.
\<close>

theorem sleep_score_rounded:
  "(2 \<le> length entries \<longrightarrow>
      consistency (analyzeSleepPatterns entries)
        = js_max (Fin 0) (js_min (Fin 100) (math_round
            (dbl_sub (Fin 100) (dbl_mul (avgDeviation (sleep_numbers entries) 8) (Fin 10))))))
   \<and> (length entries = 1 \<longrightarrow> consistency (analyzeSleepPatterns entries) = Fin 0)
   \<and> (\<exists>k. consistency (analyzeSleepPatterns entries) = Fin (of_int k) \<and> 0 \<le> k \<and> k \<le> 100)
   \<and> (entries \<noteq> [] \<and> no_inherited_label entries \<longrightarrow>
        qualityScore (analyzeSleepPatterns entries) = math_round (qualityMean entries)
        \<and> sleepScore entries
          = dbl_add (dbl_mul (consistency (analyzeSleepPatterns entries)) (fl (4 / 10)))
                    (dbl_mul (math_round (qualityMean entries)) (fl (6 / 10))))"
proof (intro conjI impI)
  assume h: "2 \<le> length entries"
  then have ne: "entries \<noteq> []" by auto
  from h have l: "2 \<le> length (sleepData entries)" by (simp add: sleepData_def)
  show "consistency (analyzeSleepPatterns entries)
        = js_max (Fin 0) (js_min (Fin 100) (math_round
            (dbl_sub (Fin 100) (dbl_mul (avgDeviation (sleep_numbers entries) 8) (Fin 10)))))"
    unfolding analyzeSleepPatterns_consistency[OF ne] consistency_target[OF l] values_sleepData
    by (rule refl)
next
  assume h: "length entries = 1"
  then have ne: "entries \<noteq> []" by auto
  from h show "consistency (analyzeSleepPatterns entries) = Fin 0"
    unfolding analyzeSleepPatterns_consistency[OF ne]
    by (simp add: calculateConsistencyScore_def sleepData_def)
next
  show "\<exists>k. consistency (analyzeSleepPatterns entries) = Fin (of_int k) \<and> 0 \<le> k \<and> k \<le> 100"
    by (rule consistency_range)
next
  assume h: "entries \<noteq> [] \<and> no_inherited_label entries"
  then show q: "qualityScore (analyzeSleepPatterns entries) = math_round (qualityMean entries)"
    by (simp add: analyzeSleepPatterns_quality)
  from h have "qualityMean entries \<noteq> NaN" using qualityMean_not_negative by blast
  then have r: "or_zero (math_round (qualityMean entries)) = math_round (qualityMean entries)"
    by (cases "qualityMean entries") simp_all
  obtain k where "consistency (analyzeSleepPatterns entries) = Fin (of_int k)"
    using consistency_range by blast
  then have c: "or_zero (consistency (analyzeSleepPatterns entries))
      = consistency (analyzeSleepPatterns entries)" by simp
  show "sleepScore entries
          = dbl_add (dbl_mul (consistency (analyzeSleepPatterns entries)) (fl (4 / 10)))
                    (dbl_mul (math_round (qualityMean entries)) (fl (6 / 10)))"
    by (simp only: sleepScore_def Let_def q r c)
qed

text \<open>
  C7 as stated fails for a single entry that sleeps exactly 8 hours: the unrounded
  formula gives 100, the code returns 0 for every series of fewer than two items.
\<close>

theorem sleep_consistency_single_entry:
  "consistency (analyzeSleepPatterns [empty_metrics\<lparr>sleep := Some 8, sleepQuality := Some ''good''\<rparr>]) = Fin 0
   \<and> consistency_spec [empty_metrics\<lparr>sleep := Some 8, sleepQuality := Some ''good''\<rparr>] = 100
   \<and> consistency (analyzeSleepPatterns [empty_metrics\<lparr>sleep := Some 8, sleepQuality := Some ''good''\<rparr>])
       \<noteq> Fin (consistency_spec [empty_metrics\<lparr>sleep := Some 8, sleepQuality := Some ''good''\<rparr>])"
  by (simp add: analyzeSleepPatterns_def calculateConsistencyScore_def sleepData_def
      consistency_spec_def mean_abs_deviation_def sleep_hours_def Let_def empty_metrics_def)

theorem sleep_score_rounded_witness:
  "consistency (analyzeSleepPatterns
      [empty_metrics\<lparr>sleep := Some 8, sleepQuality := Some ''good''\<rparr>,
       empty_metrics\<lparr>sleep := Some 8, sleepQuality := Some ''good''\<rparr>,
       empty_metrics\<lparr>sleep := Some 7, sleepQuality := Some ''restless''\<rparr>,
       empty_metrics\<lparr>sleep := None, sleepQuality := None\<rparr>]) = Fin 78
   \<and> sleepScore
      [empty_metrics\<lparr>sleep := Some 8, sleepQuality := Some ''good''\<rparr>,
       empty_metrics\<lparr>sleep := Some 8, sleepQuality := Some ''good''\<rparr>,
       empty_metrics\<lparr>sleep := Some 7, sleepQuality := Some ''restless''\<rparr>,
       empty_metrics\<lparr>sleep := None, sleepQuality := None\<rparr>]
       = Fin (5784310771403981 / 70368744177664)
   \<and> consistency (analyzeSleepPatterns [empty_metrics\<lparr>sleep := Some 7, sleepQuality := Some ''poor''\<rparr>])
       = Fin 0
   \<and> qualityScore (analyzeSleepPatterns [empty_metrics\<lparr>sleep := Some 7, sleepQuality := Some ''poor''\<rparr>])
       = Fin 40
   \<and> consistency (analyzeSleepPatterns
      [empty_metrics\<lparr>sleep := Some (47 / 10)\<rparr>,
       empty_metrics,
       empty_metrics\<lparr>sleep := Some (67 / 10)\<rparr>,
       empty_metrics\<lparr>sleep := Some (52 / 10)\<rparr>]) = Fin 61
   \<and> sleepScore
      [empty_metrics\<lparr>sleep := Some 3\<rparr>, empty_metrics\<lparr>sleep := Some 3\<rparr>,
       empty_metrics\<lparr>sleep := Some 3\<rparr>, empty_metrics\<lparr>sleep := Some 2\<rparr>,
       empty_metrics\<lparr>sleep := Some 2\<rparr>]
       = Fin (2125136074165453 / 35184372088832)"
proof -
  let ?E = "[empty_metrics\<lparr>sleep := Some 8, sleepQuality := Some ''good''\<rparr>,
       empty_metrics\<lparr>sleep := Some 8, sleepQuality := Some ''good''\<rparr>,
       empty_metrics\<lparr>sleep := Some 7, sleepQuality := Some ''restless''\<rparr>,
       empty_metrics\<lparr>sleep := None, sleepQuality := None\<rparr>]"
  let ?S = "[empty_metrics\<lparr>sleep := Some 7, sleepQuality := Some ''poor''\<rparr>]"
  let ?R = "[empty_metrics\<lparr>sleep := Some (47 / 10)\<rparr>,
       empty_metrics,
       empty_metrics\<lparr>sleep := Some (67 / 10)\<rparr>,
       empty_metrics\<lparr>sleep := Some (52 / 10)\<rparr>]"
  let ?T = "[empty_metrics\<lparr>sleep := Some 3\<rparr>, empty_metrics\<lparr>sleep := Some 3\<rparr>,
       empty_metrics\<lparr>sleep := Some 3\<rparr>, empty_metrics\<lparr>sleep := Some 2\<rparr>,
       empty_metrics\<lparr>sleep := Some 2\<rparr>]"
  have h1: "2 \<le> length ?E" by simp
  have h2: "?E \<noteq> [] \<and> no_inherited_label ?E"
    by (simp add: no_inherited_label_def inherited_def empty_metrics_def)
  have h3: "length ?S = 1" by simp
  have h4: "?S \<noteq> [] \<and> no_inherited_label ?S"
    by (simp add: no_inherited_label_def inherited_def empty_metrics_def)
  have h5: "2 \<le> length ?R" by simp
  have h6: "?T \<noteq> [] \<and> no_inherited_label ?T"
    by (simp add: no_inherited_label_def inherited_def empty_metrics_def)
  have e1: "js_max (Fin 0) (js_min (Fin 100) (math_round
            (dbl_sub (Fin 100) (dbl_mul (avgDeviation (sleep_numbers ?E) 8) (Fin 10))))) = Fin 78"
    by code_simp
  have e2: "math_round (qualityMean ?E) = Fin 85" by code_simp
  have e3: "dbl_add (dbl_mul (Fin 78) (fl (4 / 10)))
                    (dbl_mul (Fin 85) (fl (6 / 10)))
      = Fin (5784310771403981 / 70368744177664)" by code_simp
  have e4: "math_round (qualityMean ?S) = Fin 40" by code_simp
  have e5: "js_max (Fin 0) (js_min (Fin 100) (math_round
            (dbl_sub (Fin 100) (dbl_mul (avgDeviation (sleep_numbers ?R) 8) (Fin 10))))) = Fin 61"
    by code_simp
  have e6: "dbl_add (dbl_mul (consistency (analyzeSleepPatterns ?T)) (fl (4 / 10)))
                    (dbl_mul (math_round (qualityMean ?T)) (fl (6 / 10)))
      = Fin (2125136074165453 / 35184372088832)" by code_simp
  note t = sleep_score_rounded[of ?E]
  note s = sleep_score_rounded[of ?S]
  note r = sleep_score_rounded[of ?R]
  note u = sleep_score_rounded[of ?T]
  have p1: "consistency (analyzeSleepPatterns ?E) = Fin 78"
    using t[THEN conjunct1, THEN mp, OF h1] unfolding e1 .
  have p2: "sleepScore ?E = Fin (5784310771403981 / 70368744177664)"
    using t[THEN conjunct2, THEN conjunct2, THEN conjunct2, THEN mp, OF h2, THEN conjunct2]
    unfolding p1 e2 e3 .
  have p3: "consistency (analyzeSleepPatterns ?S) = Fin 0"
    by (rule s[THEN conjunct2, THEN conjunct1, THEN mp, OF h3])
  have p4: "qualityScore (analyzeSleepPatterns ?S) = Fin 40"
    using s[THEN conjunct2, THEN conjunct2, THEN conjunct2, THEN mp, OF h4, THEN conjunct1]
    unfolding e4 .
  have p5: "consistency (analyzeSleepPatterns ?R) = Fin 61"
    using r[THEN conjunct1, THEN mp, OF h5] unfolding e5 .
  have p6: "sleepScore ?T = Fin (2125136074165453 / 35184372088832)"
    using u[THEN conjunct2, THEN conjunct2, THEN conjunct2, THEN mp, OF h6, THEN conjunct2]
    unfolding e6 .
  from p1 p2 p3 p4 p5 p6 show ?thesis by (intro conjI)
qed

section \<open>Properties of the local extractor\<close>




lemma find_append:
  "find P (xs @ ys) = (case find P xs of None \<Rightarrow> find P ys | Some x \<Rightarrow> Some x)"
  by (induction xs) simp_all









lemma first_match_find:
  "first_match table s None Some = map_option fst (find (\<lambda>(level, pattern). test pattern s) table)"
  by (induction table) auto

lemma last_match_find:
  "last_match table s current
     = (case find (\<lambda>(key, pattern). test pattern s) (rev table) of
          None \<Rightarrow> current | Some (key, pattern) \<Rightarrow> key)"
proof (induction table arbitrary: current)
  case Nil
  then show ?case by simp
next
  case (Cons a table)
  obtain key pattern where a: "a = (key, pattern)" by (cases a)
  show ?case
    by (simp add: a Cons.IH find_append split: option.splits)
qed

text \<open>
  C6, as the code has it: the second \<open>analyzeLocally\<close> returns the first of the
  categories high, low, medium whose pattern matches the lower-cased text, and \<open>null\<close>
  when none does.  The first \<open>analyzeLocally\<close> returns the last of the three categories
  whose pattern matches the text, and \<open>medium\<close> when none does.
\<close>

theorem energy_first_match:
  "energy (analyzeLocally now entry)
     = map_option fst
         (find (\<lambda>(level, pattern). test pattern (toLowerCase entry)) patterns_energy)
   \<and> map fst patterns_energy = [''high'', ''low'', ''medium'']
   \<and> ((\<forall>(level, pattern)\<in>set patterns_energy. \<not> test pattern (toLowerCase entry)) \<longrightarrow>
        energy (analyzeLocally now entry) = None)
   \<and> energy (analyzeLocally_first entry)
     = Some (case find (\<lambda>(key, pattern). test pattern entry) (rev patterns_first_energy) of
               None \<Rightarrow> ''medium'' | Some (key, pattern) \<Rightarrow> key)
   \<and> map fst (rev patterns_first_energy) = [''medium'', ''low'', ''high'']"
proof -
  have a: "energy (analyzeLocally now entry)
     = map_option fst
         (find (\<lambda>(level, pattern). test pattern (toLowerCase entry)) patterns_energy)"
    by (simp add: analyzeLocally_def Let_def first_match_find)
  have b: "map fst patterns_energy = [''high'', ''low'', ''medium'']"
    by (simp add: patterns_energy_def)
  have c: "(\<forall>(level, pattern)\<in>set patterns_energy. \<not> test pattern (toLowerCase entry)) \<longrightarrow>
        energy (analyzeLocally now entry) = None"
  proof
    assume "\<forall>(level, pattern)\<in>set patterns_energy. \<not> test pattern (toLowerCase entry)"
    then have "find (\<lambda>(level, pattern). test pattern (toLowerCase entry)) patterns_energy = None"
      unfolding find_None_iff by auto
    then show "energy (analyzeLocally now entry) = None" by (simp add: a)
  qed
  have d: "energy (analyzeLocally_first entry)
     = Some (case find (\<lambda>(key, pattern). test pattern entry) (rev patterns_first_energy) of
               None \<Rightarrow> ''medium'' | Some (key, pattern) \<Rightarrow> key)"
    by (simp add: analyzeLocally_first_def Let_def last_match_find)
  have e: "map fst (rev patterns_first_energy) = [''medium'', ''low'', ''high'']"
    by (simp add: patterns_first_energy_def)
  show ?thesis by (intro conjI a b c d e)
qed




lemma energy_of_first_match:
  "energy (analyzeLocally now entry) = first_match patterns_energy (toLowerCase entry) None Some"
  by (simp add: analyzeLocally_def Let_def)

lemma energy_first_of_last_match:
  "energy (analyzeLocally_first entry) = Some (last_match patterns_first_energy entry ''medium'')"
  by (simp add: analyzeLocally_first_def Let_def)



theorem energy_first_match_witness:
  "energy (analyzeLocally 0 ''Energetic, then TIRED'') = Some ''high''
   \<and> energy (analyzeLocally 0 ''I read'') = None
   \<and> energy (analyzeLocally_first ''feeling great, energy low'') = Some ''low''"
proof -
  have e1: "map_option fst (find (\<lambda>(level, pattern).
        test pattern (toLowerCase ''Energetic, then TIRED'')) patterns_energy)
      = Some ''high''"
    by code_simp
  have h2: "\<forall>(level, pattern)\<in>set patterns_energy. \<not> test pattern (toLowerCase ''I read'')"
    by code_simp
  have e3: "(case find (\<lambda>(key, pattern). test pattern ''feeling great, energy low'')
        (rev patterns_first_energy) of None \<Rightarrow> ''medium'' | Some (key, pattern) \<Rightarrow> key) = ''low''"
    by code_simp
  note t1 = energy_first_match[of 0 "''Energetic, then TIRED''"]
  note t2 = energy_first_match[of 0 "''I read''"]
  note t3 = energy_first_match[of 0 "''feeling great, energy low''"]
  have p1: "energy (analyzeLocally 0 ''Energetic, then TIRED'') = Some ''high''"
    using t1[THEN conjunct1] unfolding e1 .
  have p2: "energy (analyzeLocally 0 ''I read'') = None"
    by (rule t2[THEN conjunct2, THEN conjunct2, THEN conjunct1, THEN mp, OF h2])
  have p3: "energy (analyzeLocally_first ''feeling great, energy low'') = Some ''low''"
    using t3[THEN conjunct2, THEN conjunct2, THEN conjunct2, THEN conjunct1] unfolding e3 .
  from p1 p2 p3 show ?thesis by simp
qed

text \<open>
  C6 as stated fails for the first \<open>analyzeLocally\<close>: a text that matches no energy
  pattern gets \<open>medium\<close>, and of two matching categories the later one is returned.
\<close>

theorem energy_default_medium:
  "energy (analyzeLocally_first ''I read'') = Some ''medium''
   \<and> \<not> test (snd (patterns_first_energy ! 0)) ''I read''
   \<and> \<not> test (snd (patterns_first_energy ! 1)) ''I read''
   \<and> \<not> test (snd (patterns_first_energy ! 2)) ''I read''
   \<and> energy (analyzeLocally_first ''feeling great, energy low'') = Some ''low''
   \<and> test (snd (patterns_first_energy ! 0)) ''feeling great, energy low''"
  unfolding energy_first_of_last_match by code_simp

section \<open>Properties of the batch route\<close>










end
